theory Spec2Isabelle
  imports Complex_Main "HOL-Library.Word"
begin

unbundle bit_operations_syntax

section \<open>The batching layer of xeokit-sdk\<close>

text \<open>
  This theory embeds \<^verbatim>\<open>src/scene/bigModels/batching/batchingLayer.js\<close> and the
  compression helpers of \<^verbatim>\<open>src/scene/geometry/Geometry.js\<close>.

  Conventions of the embedding.
  \<^item> A JavaScript \<^verbatim>\<open>throw\<close> is the left summand of a sum type; the thrown value is
    kept (\<open>Thrown\<close> carries the string the source throws).
  \<^item> A typed array is a list of fixed length. An indexed write outside the array is
    dropped by JavaScript; \<open>xs[i := v]\<close> does the same. \<^verbatim>\<open>TypedArray.set\<close> raises
    a RangeError when the source does not fit.
  \<^item> Numbers are exact reals: the rounding of IEEE arithmetic and of
    \<^verbatim>\<open>Float32Array\<close> stores is not modelled. Where the source divides by a width
    that can be zero, the quotient is a \<open>jsnum\<close>, which has the infinities and NaN.
  \<^item> Positions are lists of vertices (triples), so a position array always holds a
    whole number of vertices.
\<close>

subsection \<open>Values\<close>

type_synonym byte = "8 word"
type_synonym vec3 = "real \<times> real \<times> real"
type_synonym rgba = "int \<times> int \<times> int \<times> int"
type_synonym byte4 = "byte \<times> byte \<times> byte \<times> byte"

text \<open>An axis-aligned box as the source's flat array: xmin, ymin, zmin, xmax, ymax, zmax.\<close>

type_synonym aabb3 = "real \<times> real \<times> real \<times> real \<times> real \<times> real"

datatype thrown =
    Thrown string
  | TypeError string
  | RangeError string

datatype gl_primitive =
    POINTS | LINES | LINE_LOOP | LINE_STRIP | TRIANGLES | TRIANGLE_STRIP | TRIANGLE_FAN

text \<open>
  \<^verbatim>\<open>RENDER_FLAGS\<close> is imported from \<^verbatim>\<open>../renderFlags.js\<close>, which is not among the
  sources: the bit masks are a parameter of every function that tests them.
\<close>

record render_flags =
  VISIBLE :: "32 word"
  GHOSTED :: "32 word"
  HIGHLIGHTED :: "32 word"
  SELECTED :: "32 word"
  CLIPPABLE :: "32 word"
  EDGES :: "32 word"

text \<open>\<^verbatim>\<open>!!(flags & MASK) ? 255 : 0\<close>\<close>

definition flagByte :: "32 word \<Rightarrow> 32 word \<Rightarrow> byte" where
  "flagByte flags m = (if flags AND m \<noteq> 0 then 255 else 0)"

text \<open>Storing a number in a \<^verbatim>\<open>Uint8Array\<close> keeps it modulo 256.\<close>

definition toUint8 :: "int \<Rightarrow> byte" where
  "toUint8 v = word_of_int v"

definition rgbaBytes :: "rgba \<Rightarrow> byte4" where
  "rgbaBytes c = (case c of (r, g, b, a) \<Rightarrow> (toUint8 r, toUint8 g, toUint8 b, toUint8 a))"

subsection \<open>Typed arrays\<close>

text \<open>\<^verbatim>\<open>target.set(source, offset)\<close>\<close>

definition typedArraySet :: "'a list \<Rightarrow> 'a list \<Rightarrow> nat \<Rightarrow> thrown + 'a list" where
  "typedArraySet target source offset =
     (if offset + length source > length target then Inl (RangeError ''offset is out of bounds'')
      else Inr (take offset target @ source @ drop (offset + length source) target))"

text \<open>
  The loop \<^verbatim>\<open>for (i = start; i < start + n * 4; i += 4) { a[i] = v0; a[i+1] = v1;
  a[i+2] = v2; a[i+3] = v3; }\<close>, which runs once for each of \<open>n\<close> vertices.
\<close>

fun fill4 :: "byte list \<Rightarrow> nat \<Rightarrow> nat \<Rightarrow> byte4 \<Rightarrow> byte list" where
  "fill4 xs i 0 v = xs"
| "fill4 xs i (Suc n) v =
     (case v of (v0, v1, v2, v3) \<Rightarrow>
        fill4 (xs[i := v0, i + 1 := v1, i + 2 := v2, i + 3 := v3]) (i + 4) n v)"

text \<open>
  The loop of \<^verbatim>\<open>setPickID\<close>: \<^verbatim>\<open>for (i = 0; i < n * 2; i += 2) { a[i] = v; }\<close>,
  again \<open>n\<close> rounds.
\<close>

fun fillStride2 :: "byte list \<Rightarrow> nat \<Rightarrow> nat \<Rightarrow> byte \<Rightarrow> byte list" where
  "fillStride2 xs i 0 v = xs"
| "fillStride2 xs i (Suc n) v = fillStride2 (xs[i := v]) (i + 2) n v"

text \<open>
  Modelled from the spec: \<^verbatim>\<open>ArrayBuf.setData(data, offset, len)\<close> of
  \<^verbatim>\<open>../../webgl/ArrayBuf.js\<close>, which is not among the sources. The spec calls it a
  partial buffer update with no full re-upload and no reallocation: the bytes of the
  buffer from \<open>offset\<close> on are overwritten by \<open>data\<close>, and an update that does not fit
  in the buffer changes nothing.
\<close>

definition setData :: "byte list \<Rightarrow> byte list \<Rightarrow> nat \<Rightarrow> nat \<Rightarrow> byte list" where
  "setData buf data offset len =
     (if offset + length data \<le> length buf
      then take offset buf @ data @ drop (offset + length data) buf
      else buf)"

subsection \<open>Bounding boxes\<close>

text \<open>
  Modelled from the spec: \<^verbatim>\<open>math.expandAABB3Point3(aabb, p)\<close> of
  \<^verbatim>\<open>../../math/math.js\<close>, which is not among the sources; the box grows to
  contain the point.
\<close>

definition expandAABB3Point3 :: "aabb3 \<Rightarrow> vec3 \<Rightarrow> aabb3" where
  "expandAABB3Point3 box p =
     (case box of (x0, y0, z0, x1, y1, z1) \<Rightarrow>
      case p of (px, py, pz) \<Rightarrow>
        (min x0 px, min y0 py, min z0 pz, max x1 px, max y1 py, max z1 pz))"

definition flatten3 :: "vec3 list \<Rightarrow> real list" where
  "flatten3 ps = concat (map (\<lambda>p. case p of (x, y, z) \<Rightarrow> [x, y, z]) ps)"

subsection \<open>Numbers that a division by zero can produce\<close>

text \<open>
  The quantizers divide a constant by the width of the box on each axis, and the width
  may be zero. In JavaScript that division yields an infinity or NaN and the
  computation goes on; \<open>jsnum\<close> keeps these values apart from the finite numbers.
  The widths are differences of two numbers, so a zero width is the positive zero.
\<close>

datatype jsnum = Num real | PosInfinity | NegInfinity | NaN

definition js_div :: "real \<Rightarrow> real \<Rightarrow> jsnum" where
  "js_div a b =
     (if b \<noteq> 0 then Num (a / b)
      else if 0 < a then PosInfinity
      else if a < 0 then NegInfinity
      else NaN)"

fun js_sub :: "jsnum \<Rightarrow> real \<Rightarrow> jsnum" where
  "js_sub (Num a) b = Num (a - b)"
| "js_sub PosInfinity b = PosInfinity"
| "js_sub NegInfinity b = NegInfinity"
| "js_sub NaN b = NaN"

fun js_mul :: "jsnum \<Rightarrow> jsnum \<Rightarrow> jsnum" where
  "js_mul NaN m = NaN"
| "js_mul (Num a) (Num b) = Num (a * b)"
| "js_mul (Num a) PosInfinity =
     (if 0 < a then PosInfinity else if a < 0 then NegInfinity else NaN)"
| "js_mul (Num a) NegInfinity =
     (if 0 < a then NegInfinity else if a < 0 then PosInfinity else NaN)"
| "js_mul (Num a) NaN = NaN"
| "js_mul PosInfinity (Num b) =
     (if 0 < b then PosInfinity else if b < 0 then NegInfinity else NaN)"
| "js_mul PosInfinity PosInfinity = PosInfinity"
| "js_mul PosInfinity NegInfinity = NegInfinity"
| "js_mul PosInfinity NaN = NaN"
| "js_mul NegInfinity (Num b) =
     (if 0 < b then NegInfinity else if b < 0 then PosInfinity else NaN)"
| "js_mul NegInfinity PosInfinity = NegInfinity"
| "js_mul NegInfinity NegInfinity = PosInfinity"
| "js_mul NegInfinity NaN = NaN"

text \<open>\<^verbatim>\<open>Math.floor\<close>\<close>

fun js_floor :: "jsnum \<Rightarrow> jsnum" where
  "js_floor (Num a) = Num (of_int \<lfloor>a\<rfloor>)"
| "js_floor PosInfinity = PosInfinity"
| "js_floor NegInfinity = NegInfinity"
| "js_floor NaN = NaN"

text \<open>
  Storing a number in a \<^verbatim>\<open>Uint16Array\<close>: the fraction is dropped, the integer is
  kept modulo 65536, and the infinities and NaN are stored as 0.
\<close>

fun toUint16 :: "jsnum \<Rightarrow> 16 word" where
  "toUint16 (Num a) = word_of_int (if 0 \<le> a then \<lfloor>a\<rfloor> else \<lceil>a\<rceil>)"
| "toUint16 PosInfinity = 0"
| "toUint16 NegInfinity = 0"
| "toUint16 NaN = 0"

text \<open>Reading \<^verbatim>\<open>a[i]\<close> as a number: outside the array it is \<^verbatim>\<open>undefined\<close>, hence NaN.\<close>

definition readNum :: "real list \<Rightarrow> nat \<Rightarrow> jsnum" where
  "readNum xs i = (if i < length xs then Num (xs ! i) else NaN)"

subsection \<open>Position quantization\<close>

text \<open>
  Modelled from the spec: the matrix helpers \<^verbatim>\<open>identityMat4\<close>,
  \<^verbatim>\<open>translationMat4v\<close>, \<^verbatim>\<open>scalingMat4v\<close> and \<^verbatim>\<open>mulMat4\<close> of
  \<^verbatim>\<open>math.js\<close> are not among the sources. The decode matrix is the product of a
  translation and a scaling; it is kept as these two vectors, and applying it to a
  quantized vertex scales each component and then translates it.
\<close>

record decodeMatrix =
  translate :: vec3
  scale :: vec3



text \<open>\<^verbatim>\<open>Math.floor((p - min) * multiplier)\<close>, stored in a \<^verbatim>\<open>Uint16Array\<close>.\<close>

definition quantizeAxis :: "jsnum \<Rightarrow> real \<Rightarrow> jsnum \<Rightarrow> 16 word" where
  "quantizeAxis p lo multiplier = toUint16 (js_floor (js_mul (js_sub p lo) multiplier))"

text \<open>The \<^verbatim>\<open>multiplier\<close> array of \<^verbatim>\<open>quantizeVec3\<close> in \<^verbatim>\<open>Geometry.js\<close>.\<close>

definition quantizeVec3_multiplier :: "vec3 \<Rightarrow> vec3 \<Rightarrow> jsnum \<times> jsnum \<times> jsnum" where
  "quantizeVec3_multiplier lo hi =
     (case lo of (lx, ly, lz) \<Rightarrow>
      case hi of (hx, hy, hz) \<Rightarrow>
        (js_div 65535 (hx - lx), js_div 65535 (hy - ly), js_div 65535 (hz - lz)))"

text \<open>
  \<^verbatim>\<open>quantizeVec3(array, min, max)\<close> of \<^verbatim>\<open>Geometry.js\<close>: the compressed array
  (a fresh \<^verbatim>\<open>Uint16Array\<close>) and the decode matrix.
\<close>

definition quantizeVec3 ::
  "vec3 list \<Rightarrow> vec3 \<Rightarrow> vec3 \<Rightarrow> (16 word \<times> 16 word \<times> 16 word) list \<times> decodeMatrix" where
  "quantizeVec3 array lo hi =
     (case lo of (lx, ly, lz) \<Rightarrow>
      case hi of (hx, hy, hz) \<Rightarrow>
      case quantizeVec3_multiplier lo hi of (mx, my, mz) \<Rightarrow>
        (map (\<lambda>p. case p of (x, y, z) \<Rightarrow>
                (quantizeAxis (Num x) lx mx, quantizeAxis (Num y) ly my,
                 quantizeAxis (Num z) lz mz)) array,
         \<lparr> translate = lo,
           scale = ((hx - lx) / 65535, (hy - ly) / 65535, (hz - lz) / 65535) \<rparr>))"

text \<open>
  \<^verbatim>\<open>quantizePositions\<close> of \<^verbatim>\<open>batchingLayer.js\<close>. The constant \<open>maxInt\<close> is
  65525 there. The multipliers:
\<close>

definition maxInt :: real where
  "maxInt = 65525"

definition quantizePositions_multiplier :: "aabb3 \<Rightarrow> jsnum \<times> jsnum \<times> jsnum" where
  "quantizePositions_multiplier box =
     (case box of (xmin, ymin, zmin, xmax, ymax, zmax) \<Rightarrow>
        (js_div maxInt (xmax - xmin), js_div maxInt (ymax - ymin),
         js_div maxInt (zmax - zmin)))"

text \<open>
  The loop \<^verbatim>\<open>for (i = 0; i < lenPositions; i += 3)\<close>, with the number of rounds
  left as the last argument: each round writes the three components of one vertex.
\<close>

fun quantizeLoop ::
  "real list \<Rightarrow> vec3 \<Rightarrow> jsnum \<times> jsnum \<times> jsnum \<Rightarrow> 16 word list \<Rightarrow> nat \<Rightarrow> nat \<Rightarrow> 16 word list" where
  "quantizeLoop ps lo m q i 0 = q"
| "quantizeLoop ps lo m q i (Suc n) =
     (case lo of (xmin, ymin, zmin) \<Rightarrow>
      case m of (xMultiplier, yMultiplier, zMultiplier) \<Rightarrow>
        quantizeLoop ps lo m
          (q[i := quantizeAxis (readNum ps i) xmin xMultiplier,
             i + 1 := quantizeAxis (readNum ps (i + 1)) ymin yMultiplier,
             i + 2 := quantizeAxis (readNum ps (i + 2)) zmin zMultiplier])
          (i + 3) n)"

text \<open>
  The function returns the array \<open>quantizedPositions\<close> and the matrix
  \<open>positionsDecodeMatrix\<close>, which the source updates in place. The loop runs
  \<open>\<lceil>lenPositions / 3\<rceil>\<close> times.
\<close>

definition quantizePositions ::
  "real list \<Rightarrow> nat \<Rightarrow> aabb3 \<Rightarrow> 16 word list \<Rightarrow> 16 word list \<times> decodeMatrix" where
  "quantizePositions ps lenPs box quantized =
     (case box of (xmin, ymin, zmin, xmax, ymax, zmax) \<Rightarrow>
        (quantizeLoop ps (xmin, ymin, zmin) (quantizePositions_multiplier box) quantized 0
           ((lenPs + 2) div 3),
         \<lparr> translate = (xmin, ymin, zmin),
           scale = ((xmax - xmin) / maxInt, (ymax - ymin) / maxInt, (zmax - zmin) / maxInt) \<rparr>))"

subsection \<open>Oct-encoding of normals\<close>

text \<open>
  The source selects \<^verbatim>\<open>Math.floor\<close> or \<^verbatim>\<open>Math.ceil\<close> by the strings
  \<^verbatim>\<open>"floor"\<close> and \<^verbatim>\<open>"ceil"\<close>; these are the only two that it passes.
\<close>

datatype rounding = Floor | Ceil

definition mathRound :: "rounding \<Rightarrow> real \<Rightarrow> int" where
  "mathRound f v = (case f of Floor \<Rightarrow> \<lfloor>v\<rfloor> | Ceil \<Rightarrow> \<lceil>v\<rceil>)"

text \<open>Storing an integer in an \<^verbatim>\<open>Int8Array\<close> wraps it into \<open>-128 .. 127\<close>.\<close>

definition toInt8 :: "int \<Rightarrow> int" where
  "toInt8 v = (v + 128) mod 256 - 128"

definition signOf :: "real \<Rightarrow> real" where
  "signOf v = (if 0 \<le> v then 1 else -1)"

text \<open>
  \<^verbatim>\<open>octEncodeVec3\<close> (the same in both files). For the zero vector the source computes
  \<^verbatim>\<open>0 / 0\<close>, which is NaN; every comparison with it is false, both rounding
  functions return NaN, and the \<^verbatim>\<open>Int8Array\<close> stores 0 for it.
\<close>

definition octEncodeVec3 :: "vec3 \<Rightarrow> rounding \<Rightarrow> rounding \<Rightarrow> int \<times> int" where
  "octEncodeVec3 p xfunc yfunc =
     (case p of (p0, p1, p2) \<Rightarrow>
        if \<bar>p0\<bar> + \<bar>p1\<bar> + \<bar>p2\<bar> = 0 then (0, 0)
        else
          let x = p0 / (\<bar>p0\<bar> + \<bar>p1\<bar> + \<bar>p2\<bar>);
              y = p1 / (\<bar>p0\<bar> + \<bar>p1\<bar> + \<bar>p2\<bar>);
              tempx = (if p2 < 0 then (1 - \<bar>y\<bar>) * signOf x else x);
              tempy = (if p2 < 0 then (1 - \<bar>x\<bar>) * signOf y else y)
          in (toInt8 (mathRound xfunc (tempx * 127.5 + (if tempx < 0 then -1 else 0))),
              toInt8 (mathRound yfunc (tempy * 127.5 + (if tempy < 0 then -1 else 0)))))"

text \<open>
  \<^verbatim>\<open>octDecodeVec2\<close> (the same in both files). When \<open>z < 0\<close> the source assigns
  \<open>x\<close> first and then computes \<open>y\<close> from the new \<open>x\<close>; the model follows it.
  The length is never zero: \<open>z\<close> is \<open>1 - \<bar>x\<bar> - \<bar>y\<bar>\<close>, so \<open>x = y = 0\<close> gives
  \<open>z = 1\<close>.
\<close>

definition octDecodeVec2 :: "int \<times> int \<Rightarrow> vec3" where
  "octDecodeVec2 oct =
     (case oct of (o0, o1) \<Rightarrow>
        let x = real_of_int o0 / (if o0 < 0 then 127 else 128);
            y = real_of_int o1 / (if o1 < 0 then 127 else 128);
            z = 1 - \<bar>x\<bar> - \<bar>y\<bar>;
            x' = (if z < 0 then (1 - \<bar>y\<bar>) * signOf x else x);
            y' = (if z < 0 then (1 - \<bar>x'\<bar>) * signOf y else y);
            len = sqrt (x' * x' + y' * y' + z * z)
        in (x' / len, y' / len, z / len))"

definition dot :: "vec3 \<Rightarrow> vec3 \<Rightarrow> real" where
  "dot p v = (case p of (p0, p1, p2) \<Rightarrow> case v of (v0, v1, v2) \<Rightarrow> p0 * v0 + p1 * v1 + p2 * v2)"

text \<open>
  One round of the selection loop of \<^verbatim>\<open>octEncode\<close> (\<^verbatim>\<open>Geometry.js\<close>) and of
  \<^verbatim>\<open>transformAndOctEncodeNormals\<close> (\<^verbatim>\<open>batchingLayer.js\<close>): a candidate replaces
  the best one when its cosine is strictly larger.
\<close>

definition better :: "vec3 \<Rightarrow> (int \<times> int) \<times> real \<Rightarrow> int \<times> int \<Rightarrow> (int \<times> int) \<times> real" where
  "better n b oct =
     (let currentCos = dot n (octDecodeVec2 oct)
      in if currentCos > snd b then (oct, currentCos) else b)"

definition octEncodeNormal :: "vec3 \<Rightarrow> int \<times> int" where
  "octEncodeNormal n =
     (let oct = octEncodeVec3 n Floor Floor;
          b0 = (oct, dot n (octDecodeVec2 oct));
          b1 = better n b0 (octEncodeVec3 n Ceil Floor);
          b2 = better n b1 (octEncodeVec3 n Floor Ceil);
          b3 = better n b2 (octEncodeVec3 n Ceil Ceil)
      in fst b3)"

text \<open>
  \<^verbatim>\<open>octEncode(array)\<close> of \<^verbatim>\<open>Geometry.js\<close>: three elements for each normal, the
  third one left at the 0 of the fresh \<^verbatim>\<open>Int8Array\<close>.
\<close>

definition octEncode :: "vec3 list \<Rightarrow> (int \<times> int \<times> int) list" where
  "octEncode array = map (\<lambda>n. case octEncodeNormal n of (b0, b1) \<Rightarrow> (b0, b1, 0)) array"

subsection \<open>The arena and the layer\<close>

text \<open>
  The arena is the object passed as \<^verbatim>\<open>cfg.buffer\<close>; its class is not among the
  sources, and the record has the fields that \<^verbatim>\<open>batchingLayer.js\<close> uses. The
  contents of the normals and of the two index arrays are left out (no property below
  reads them); their length counters are kept.
\<close>

record batchingBuffer =
  maxVerts :: nat
  positions :: "real list"
  quantizedPositions :: "16 word list"
  colors :: "byte list"
  flags :: "byte list"
  pickColors :: "byte list"
  lenPositions :: nat
  lenColors :: nat
  lenNormals :: nat
  lenFlags :: nat
  lenPickColors :: nat
  lenIndices :: nat
  lenEdgeIndices :: nat

text \<open>
  The module variable \<^verbatim>\<open>currentBatchingLayer\<close> is compared with \<^verbatim>\<open>this\<close> only,
  so it is enough to know whether it is null, this layer or another one.
\<close>

datatype packer = NoLayer | ThisLayer | OtherLayer

text \<open>
  The state that the methods of one layer read and write: the fields of the layer,
  the buffers of \<^verbatim>\<open>this._state\<close> (a GPU buffer is the list of its elements,
  \<open>None\<close> when the field is null) and the two module variables
  \<^verbatim>\<open>currentBatchingLayer\<close> and \<^verbatim>\<open>uint8Vec4Temp\<close>. A portion is a pair of
  vertex base and vertex count; the source pushes the two numbers on a flat array.
\<close>

record layer =
  buffer :: "batchingBuffer option"
  primitiveName :: string
  primitive :: gl_primitive
  positionsBuf :: "16 word list option"
  colorsBuf :: "byte list option"
  flagsBuf :: "byte list option"
  pickColorsBuf :: "byte list option"
  positionsDecodeMatrix :: decodeMatrix
  numObjects :: nat
  numVisibleObjects :: nat
  numTransparentObjects :: nat
  numGhostedObjects :: nat
  numSelectedObjects :: nat
  numHighlightedObjects :: nat
  numEdgesObjects :: nat
  aabb :: aabb3
  portions :: "(nat \<times> nat) list"
  finalized :: bool
  currentBatchingLayer :: packer
  uint8Vec4Temp :: "byte list"

subsection \<open>The constructor\<close>

text \<open>The \<^verbatim>\<open>switch\<close> of the constructor; \<open>None\<close> is its \<^verbatim>\<open>default\<close> branch.\<close>

definition primitiveOf :: "string \<Rightarrow> gl_primitive option" where
  "primitiveOf name =
     (if name = ''points'' then Some POINTS
      else if name = ''lines'' then Some LINES
      else if name = ''line-loop'' then Some LINE_LOOP
      else if name = ''line-strip'' then Some LINE_STRIP
      else if name = ''triangles'' then Some TRIANGLES
      else if name = ''triangle-strip'' then Some TRIANGLE_STRIP
      else if name = ''triangle-fan'' then Some TRIANGLE_FAN
      else None)"

text \<open>\<^verbatim>\<open>cfg.primitive || "triangles"\<close>: an absent or empty name gives the default.\<close>

definition primitiveNameOf :: "string option \<Rightarrow> string" where
  "primitiveNameOf cfg_primitive =
     (case cfg_primitive of None \<Rightarrow> ''triangles''
      | Some name \<Rightarrow> if name = [] then ''triangles'' else name)"

text \<open>The message of the \<^verbatim>\<open>default\<close> branch, the same text in both files.\<close>

definition unsupportedPrimitive :: "string \<Rightarrow> string" where
  "unsupportedPrimitive name =
     ''Unsupported value for 'primitive': '' @ [CHR 0x27] @ name @ [CHR 0x27] @
     '' - supported values are 'points', 'lines', 'line-loop', 'line-strip', 'triangles', 'triangle-strip' and 'triangle-fan'. Defaulting to 'triangles'.''"

text \<open>
  \<^verbatim>\<open>new BatchingLayer(model, cfg)\<close>. In the \<^verbatim>\<open>default\<close> branch the source throws;
  the two assignments that follow the \<^verbatim>\<open>throw\<close> are never reached. The values of
  \<^verbatim>\<open>math.collapseAABB3()\<close> and \<^verbatim>\<open>math.mat4()\<close> (\<^verbatim>\<open>math.js\<close> is not among the
  sources) and the two module variables are parameters.
\<close>

definition BatchingLayer ::
  "batchingBuffer option \<Rightarrow> string option \<Rightarrow> aabb3 \<Rightarrow> decodeMatrix \<Rightarrow> packer \<Rightarrow> byte list
     \<Rightarrow> thrown + layer" where
  "BatchingLayer cfg_buffer cfg_primitive collapsed mat4 current temp =
     (case primitiveOf (primitiveNameOf cfg_primitive) of
        None \<Rightarrow> Inl (Thrown (unsupportedPrimitive (primitiveNameOf cfg_primitive)))
      | Some prim \<Rightarrow>
          Inr \<lparr> buffer = cfg_buffer,
                primitiveName = primitiveNameOf cfg_primitive,
                primitive = prim,
                positionsBuf = None, colorsBuf = None, flagsBuf = None, pickColorsBuf = None,
                positionsDecodeMatrix = mat4,
                numObjects = 0, numVisibleObjects = 0, numTransparentObjects = 0,
                numGhostedObjects = 0, numSelectedObjects = 0, numHighlightedObjects = 0,
                numEdgesObjects = 0,
                aabb = collapsed, portions = [], finalized = False,
                currentBatchingLayer = current, uint8Vec4Temp = temp \<rparr>)"

text \<open>
  The primitive part of \<^verbatim>\<open>Geometry.init\<close>: the primitive, the primitive name and
  the messages passed to \<^verbatim>\<open>this.error\<close>, which \<^verbatim>\<open>Geometry\<close> inherits from
  \<^verbatim>\<open>Component\<close> and which logs. The \<^verbatim>\<open>default\<close> branch keeps the name it was
  given.
\<close>

definition Geometry_init_primitive :: "string option \<Rightarrow> gl_primitive \<times> string \<times> string list" where
  "Geometry_init_primitive cfg_primitive =
     (case primitiveOf (primitiveNameOf cfg_primitive) of
        Some prim \<Rightarrow> (prim, primitiveNameOf cfg_primitive, [])
      | None \<Rightarrow> (TRIANGLES, primitiveNameOf cfg_primitive,
                  [unsupportedPrimitive (primitiveNameOf cfg_primitive)]))"

subsection \<open>Creating portions\<close>

text \<open>
  \<^verbatim>\<open>canCreatePortion(lenPositions)\<close>. In the returned expression \<^verbatim>\<open>&&\<close> binds
  weaker than \<^verbatim>\<open>+\<close>: its left operand is \<^verbatim>\<open>!this._finalized\<close>, and for a layer
  that is not finalized its value is the sum on its right.
\<close>

definition canCreatePortion :: "layer \<Rightarrow> nat \<Rightarrow> thrown + bool" where
  "canCreatePortion L lenPs =
     (if finalized L then Inl (Thrown ''Already finalized'')
      else case buffer L of
        None \<Rightarrow> Inl (TypeError ''this._buffer is null'')
      | Some b \<Rightarrow>
          Inr ((if \<not> finalized L then lenPositions b + lenPs else 0) < maxVerts b * 3))"

text \<open>
  \<^verbatim>\<open>createPortion(positions, normals, indices, edgeIndices, flags, color, matrix,
  aabb, pickColor)\<close>. The optional arguments are options; of the normals and the
  indices only the lengths matter here. The matrix is given as the map
  \<^verbatim>\<open>math.transformPoint4(matrix, _)\<close> that it stands for. The result is the new
  state, the portion's box (the source expands the argument in place) and the portion
  id.

  The position loop reads every vertex back from the arena, transforms it, expands the
  two boxes and writes it back; the writes are inside the range that \<^verbatim>\<open>set\<close> has
  just accepted. The vertex base of the new portion is \<^verbatim>\<open>buffer.lenPositions / 3\<close>;
  the counter grows by whole vertices, and the model divides without remainder.
  The flag bytes and their counters are touched only when \<^verbatim>\<open>flags\<close> is given, the
  colours and the transparency counter only when \<^verbatim>\<open>color\<close> is given.
\<close>

definition createPortion ::
  "render_flags \<Rightarrow> layer \<Rightarrow> vec3 list \<Rightarrow> nat option \<Rightarrow> nat option \<Rightarrow> nat option \<Rightarrow>
     32 word option \<Rightarrow> rgba option \<Rightarrow> (vec3 \<Rightarrow> vec3) option \<Rightarrow> aabb3 \<Rightarrow> rgba
     \<Rightarrow> thrown + (layer \<times> aabb3 \<times> nat)" where
  "createPortion RF L ps normalsLen indicesLen edgeIndicesLen fl color matrix box pickColor =
     (if finalized L then Inl (Thrown ''Already finalized'')
      else if finalized L then Inl (Thrown ''BatchingLayer full - check first with canCreatePortion()'')
      else if currentBatchingLayer L = OtherLayer
        then Inl (Thrown ''Already packing another BatchingLayer'')
      else case buffer L of
        None \<Rightarrow> Inl (TypeError ''this._buffer is null'')
      | Some b \<Rightarrow>
          let vertsIndex = lenPositions b div 3;
              numVerts = length ps;
              world = (case matrix of None \<Rightarrow> ps | Some f \<Rightarrow> map f ps)
          in case typedArraySet (positions b) (flatten3 world) (lenPositions b) of
               Inl e \<Rightarrow> Inl e
             | Inr positions' \<Rightarrow>
                 let visible = (case fl of None \<Rightarrow> 0 | Some w \<Rightarrow> flagByte w (VISIBLE RF));
                     ghosted = (case fl of None \<Rightarrow> 0 | Some w \<Rightarrow> flagByte w (GHOSTED RF));
                     highlighted = (case fl of None \<Rightarrow> 0 | Some w \<Rightarrow> flagByte w (HIGHLIGHTED RF));
                     selected = (case fl of None \<Rightarrow> 0 | Some w \<Rightarrow> flagByte w (SELECTED RF));
                     clippable = (case fl of None \<Rightarrow> 0 | Some w \<Rightarrow> flagByte w (CLIPPABLE RF));
                     edges = (case fl of None \<Rightarrow> 0 | Some w \<Rightarrow> flagByte w (EDGES RF));
                     b' = b \<lparr>
                       positions := positions',
                       lenPositions := lenPositions b + 3 * numVerts,
                       lenNormals := lenNormals b + (case normalsLen of None \<Rightarrow> 0 | Some n \<Rightarrow> n),
                       flags := (case fl of None \<Rightarrow> flags b
                                 | Some w \<Rightarrow> fill4 (flags b) (lenFlags b) numVerts
                                              (visible, ghosted, highlighted, clippable)),
                       lenFlags := lenFlags b + (case fl of None \<Rightarrow> 0 | Some w \<Rightarrow> numVerts * 4),
                       colors := (case color of None \<Rightarrow> colors b
                                  | Some c \<Rightarrow> fill4 (colors b) (lenColors b) numVerts (rgbaBytes c)),
                       lenColors := lenColors b + (case color of None \<Rightarrow> 0 | Some c \<Rightarrow> numVerts * 4),
                       lenIndices := lenIndices b + (case indicesLen of None \<Rightarrow> 0 | Some n \<Rightarrow> n),
                       lenEdgeIndices :=
                         lenEdgeIndices b + (case edgeIndicesLen of None \<Rightarrow> 0 | Some n \<Rightarrow> n),
                       pickColors := fill4 (pickColors b) (lenPickColors b) numVerts (rgbaBytes pickColor),
                       lenPickColors := lenPickColors b + numVerts * 4 \<rparr>;
                     L' = L \<lparr>
                       currentBatchingLayer := ThisLayer,
                       buffer := Some b',
                       aabb := foldl expandAABB3Point3 (aabb L) world,
                       numVisibleObjects := numVisibleObjects L + (if visible \<noteq> 0 then 1 else 0),
                       numGhostedObjects := numGhostedObjects L + (if ghosted \<noteq> 0 then 1 else 0),
                       numHighlightedObjects :=
                         numHighlightedObjects L + (if highlighted \<noteq> 0 then 1 else 0),
                       numSelectedObjects := numSelectedObjects L + (if selected \<noteq> 0 then 1 else 0),
                       numEdgesObjects := numEdgesObjects L + (if edges \<noteq> 0 then 1 else 0),
                       numTransparentObjects :=
                         numTransparentObjects L +
                           (case color of None \<Rightarrow> 0
                            | Some c \<Rightarrow> (case c of (r, g, bl, a) \<Rightarrow> if a < 255 then 1 else 0)),
                       portions := portions L @ [(vertsIndex, numVerts)],
                       numObjects := numObjects L + 1 \<rparr>
                 in Inr (L', foldl expandAABB3Point3 box world, length (portions L)))"

subsection \<open>Finalizing\<close>

text \<open>
  \<^verbatim>\<open>finalize()\<close>. The class \<^verbatim>\<open>BatchingLayer\<close> extends nothing and defines no
  method \<^verbatim>\<open>error\<close>, so the call \<^verbatim>\<open>this.error("Already finalized")\<close> in the guard
  raises a TypeError before the \<^verbatim>\<open>return\<close> that follows it.

  \<^verbatim>\<open>new ArrayBuf(gl, type, data, ...)\<close> is the GPU buffer holding \<open>data\<close>. A buffer
  is created only for an array whose length counter is positive. The buffers of the
  normals and of the indices are left out with the arrays they are made from. The
  source then resets the length counters of the arena and drops the layer's reference
  to it; the layer has no arena from then on.
\<close>

definition finalize :: "layer \<Rightarrow> thrown + layer" where
  "finalize L =
     (if finalized L then Inl (TypeError ''this.error is not a function'')
      else case buffer L of
        None \<Rightarrow> Inl (TypeError ''this._buffer is null'')
      | Some b \<Rightarrow>
          (case quantizePositions (positions b) (lenPositions b) (aabb L) (quantizedPositions b) of
             (quantized, decode) \<Rightarrow>
               Inr (L \<lparr>
                 positionsDecodeMatrix := decode,
                 positionsBuf := (if lenPositions b > 0 then Some (take (lenPositions b) quantized)
                                  else positionsBuf L),
                 colorsBuf := (if lenColors b > 0 then Some (take (lenColors b) (colors b))
                               else colorsBuf L),
                 flagsBuf := (if lenFlags b > 0 then Some (take (lenFlags b) (flags b))
                              else flagsBuf L),
                 pickColorsBuf := (if lenPickColors b > 0 then Some (take (lenPickColors b) (pickColors b))
                                   else pickColorsBuf L),
                 currentBatchingLayer := NoLayer,
                 buffer := None,
                 finalized := True \<rparr>)))"

subsection \<open>Updating a portion of a finalized layer\<close>

text \<open>
  The three setters read \<^verbatim>\<open>this._portions\<close> at \<open>portionId * 2\<close>. For an id that
  names no portion both reads are \<^verbatim>\<open>undefined\<close>, the lengths are NaN, the loop does
  not run and \<^verbatim>\<open>slice(0, NaN)\<close> is empty: the update carries no data. A buffer
  field that is null makes the call of \<^verbatim>\<open>setData\<close> raise a TypeError.
\<close>

definition setPickID :: "layer \<Rightarrow> nat \<Rightarrow> int \<Rightarrow> thrown + layer" where
  "setPickID L portionId pickId =
     (if \<not> finalized L then Inl (Thrown ''Not finalized'')
      else case pickColorsBuf L of
        None \<Rightarrow> Inl (TypeError ''this._state.pickColorsBuf is null'')
      | Some buf \<Rightarrow>
          if portionId < length (portions L) then
            (case portions L ! portionId of (vertexBase, numVerts) \<Rightarrow>
               let firstFlag = vertexBase * 4;
                   lenPickColors = numVerts * 2;
                   temp = fillStride2 (uint8Vec4Temp L) 0 numVerts (toUint8 pickId)
               in Inr (L \<lparr> uint8Vec4Temp := temp,
                          pickColorsBuf :=
                            Some (setData buf (take lenPickColors temp) firstFlag lenPickColors) \<rparr>))
          else Inr L)"

definition setFlags :: "render_flags \<Rightarrow> layer \<Rightarrow> nat \<Rightarrow> 32 word \<Rightarrow> thrown + layer" where
  "setFlags RF L portionId fl =
     (if \<not> finalized L then Inl (Thrown ''Not finalized'')
      else case flagsBuf L of
        None \<Rightarrow> Inl (TypeError ''this._state.flagsBuf is null'')
      | Some buf \<Rightarrow>
          if portionId < length (portions L) then
            (case portions L ! portionId of (vertexBase, numVerts) \<Rightarrow>
               let firstFlag = vertexBase * 4;
                   lenFlags = numVerts * 4;
                   visible = flagByte fl (VISIBLE RF);
                   ghosted = flagByte fl (GHOSTED RF);
                   highlighted = flagByte fl (HIGHLIGHTED RF);
                   clippable = flagByte fl (CLIPPABLE RF);
                   temp = fill4 (uint8Vec4Temp L) 0 numVerts (visible, ghosted, highlighted, clippable)
               in Inr (L \<lparr> uint8Vec4Temp := temp,
                          flagsBuf := Some (setData buf (take lenFlags temp) firstFlag lenFlags) \<rparr>))
          else Inr L)"

definition setColor :: "layer \<Rightarrow> nat \<Rightarrow> rgba \<Rightarrow> thrown + layer" where
  "setColor L portionId color =
     (if \<not> finalized L then Inl (Thrown ''Not finalized'')
      else case colorsBuf L of
        None \<Rightarrow> Inl (TypeError ''this._state.colorsBuf is null'')
      | Some buf \<Rightarrow>
          if portionId < length (portions L) then
            (case portions L ! portionId of (vertexBase, numVerts) \<Rightarrow>
               let firstColor = vertexBase * 4;
                   lenColors = numVerts * 4;
                   temp = fill4 (uint8Vec4Temp L) 0 numVerts (rgbaBytes color)
               in Inr (L \<lparr> uint8Vec4Temp := temp,
                          colorsBuf := Some (setData buf (take lenColors temp) firstColor lenColors) \<rparr>))
          else Inr L)"

subsection \<open>Reading the state of a portion\<close>

text \<open>
  The state of a portion as the GPU sees it: the four flag bytes (visible, ghosted,
  highlighted, clippable) of its first vertex. \<open>countFlagged L k\<close> is the number of
  portions whose flag byte \<open>k\<close> is set.
\<close>

definition byteSet :: "byte list option \<Rightarrow> nat \<Rightarrow> bool" where
  "byteSet buf i = (case buf of None \<Rightarrow> False | Some bs \<Rightarrow> i < length bs \<and> bs ! i \<noteq> 0)"

definition countFlagged :: "layer \<Rightarrow> nat \<Rightarrow> nat" where
  "countFlagged L k =
     length (filter (\<lambda>p. byteSet (flagsBuf L) (fst p * 4 + k)) (portions L))"

text \<open>
  Portions lie one after the other: each starts where the one before it ends.
  \<open>contiguous s ps\<close> says so for a list of portions that starts at vertex \<open>s\<close>.
\<close>

fun contiguous :: "nat \<Rightarrow> (nat \<times> nat) list \<Rightarrow> bool" where
  "contiguous s [] = True"
| "contiguous s (p # ps) = (fst p = s \<and> contiguous (s + snd p) ps)"

subsection \<open>Example states\<close>

text \<open>
  An assignment of distinct bits to \<^verbatim>\<open>RENDER_FLAGS\<close>, used in the examples only.
\<close>

definition someRenderFlags :: render_flags where
  "someRenderFlags =
     \<lparr> VISIBLE = 1, GHOSTED = 2, HIGHLIGHTED = 4, SELECTED = 8, CLIPPABLE = 16, EDGES = 32 \<rparr>"

definition collapsedBox :: aabb3 where
  "collapsedBox = (1000000, 1000000, 1000000, - 1000000, - 1000000, - 1000000)"

definition identityDecode :: decodeMatrix where
  "identityDecode = \<lparr> translate = (0, 0, 0), scale = (1, 1, 1) \<rparr>"

text \<open>
  A small arena with room for one vertex, and the layer that the constructor builds on
  it. The scratch array \<open>uint8Vec4Temp\<close> is shared by all layers of the module, so it
  may hold anything when the layer is created; here it holds four bytes 9.
\<close>

definition arenaA :: batchingBuffer where
  "arenaA =
     \<lparr> maxVerts = 1, positions = [0, 0, 0], quantizedPositions = [0, 0, 0],
       colors = [0, 0, 0, 0], flags = [0, 0, 0, 0], pickColors = [0, 0, 0, 0],
       lenPositions = 0, lenColors = 0, lenNormals = 0, lenFlags = 0, lenPickColors = 0,
       lenIndices = 0, lenEdgeIndices = 0 \<rparr>"

definition layerA0 :: layer where
  "layerA0 =
     \<lparr> buffer = Some arenaA, primitiveName = ''triangles'', primitive = TRIANGLES,
       positionsBuf = None, colorsBuf = None, flagsBuf = None, pickColorsBuf = None,
       positionsDecodeMatrix = identityDecode,
       numObjects = 0, numVisibleObjects = 0, numTransparentObjects = 0,
       numGhostedObjects = 0, numSelectedObjects = 0, numHighlightedObjects = 0,
       numEdgesObjects = 0,
       aabb = collapsedBox, portions = [], finalized = False,
       currentBatchingLayer = NoLayer, uint8Vec4Temp = [9, 9, 9, 9] \<rparr>"

text \<open>
  The layer after \<^verbatim>\<open>createPortion\<close> of one vertex at \<open>(2, 3, 5)\<close> with the flag
  \<open>VISIBLE\<close>, the opaque colour \<open>(255, 0, 0, 255)\<close> and the pick colour
  \<open>(1, 2, 3, 4)\<close>.
\<close>

definition layerA1 :: layer where
  "layerA1 =
     layerA0 \<lparr>
       buffer := Some (arenaA \<lparr>
         positions := [2, 3, 5], colors := [255, 0, 0, 255], flags := [255, 0, 0, 0],
         pickColors := [1, 2, 3, 4],
         lenPositions := 3, lenColors := 4, lenFlags := 4, lenPickColors := 4 \<rparr>),
       numObjects := 1, numVisibleObjects := 1,
       aabb := (2, 3, 5, 2, 3, 5), portions := [(0, 1)],
       currentBatchingLayer := ThisLayer \<rparr>"

text \<open>The same layer after \<^verbatim>\<open>finalize\<close>.\<close>

definition layerA2 :: layer where
  "layerA2 =
     layerA1 \<lparr>
       buffer := None,
       positionsBuf := Some [0, 0, 0], colorsBuf := Some [255, 0, 0, 255],
       flagsBuf := Some [255, 0, 0, 0], pickColorsBuf := Some [1, 2, 3, 4],
       positionsDecodeMatrix := \<lparr> translate = (2, 3, 5), scale = (0, 0, 0) \<rparr>,
       finalized := True, currentBatchingLayer := NoLayer \<rparr>"

text \<open>
  An arena with room for six vertices, and the layer of the scenario of the
  specification: two triangles, red and green, appended and finalized.
\<close>

definition arenaB :: batchingBuffer where
  "arenaB =
     \<lparr> maxVerts = 6,
       positions = [0, 0, 0, 0, 0, 0, 0, 0, 0, 0, 0, 0, 0, 0, 0, 0, 0, 0],
       quantizedPositions = [0, 0, 0, 0, 0, 0, 0, 0, 0, 0, 0, 0, 0, 0, 0, 0, 0, 0],
       colors = [0, 0, 0, 0, 0, 0, 0, 0, 0, 0, 0, 0, 0, 0, 0, 0, 0, 0, 0, 0, 0, 0, 0, 0],
       flags = [0, 0, 0, 0, 0, 0, 0, 0, 0, 0, 0, 0, 0, 0, 0, 0, 0, 0, 0, 0, 0, 0, 0, 0],
       pickColors = [0, 0, 0, 0, 0, 0, 0, 0, 0, 0, 0, 0, 0, 0, 0, 0, 0, 0, 0, 0, 0, 0, 0, 0],
       lenPositions = 0, lenColors = 0, lenNormals = 0, lenFlags = 0, lenPickColors = 0,
       lenIndices = 0, lenEdgeIndices = 0 \<rparr>"

definition layerB0 :: layer where
  "layerB0 = layerA0 \<lparr> buffer := Some arenaB, uint8Vec4Temp := [9, 9, 9, 9, 9, 9, 9, 9, 9, 9, 9, 9] \<rparr>"

definition triangle1 :: "vec3 list" where
  "triangle1 = [(0, 0, 0), (1, 0, 0), (0, 1, 0)]"

definition triangle2 :: "vec3 list" where
  "triangle2 = [(0, 0, 1), (1, 0, 1), (0, 1, 1)]"

definition red :: rgba where
  "red = (255, 0, 0, 255)"

definition green :: rgba where
  "green = (0, 255, 0, 255)"

definition blue :: rgba where
  "blue = (0, 0, 255, 255)"

definition layerB2 :: layer where
  "layerB2 =
     layerB0 \<lparr>
       buffer := None,
       positionsBuf := Some [0, 0, 0, 65525, 0, 0, 0, 65525, 0, 0, 0, 65525, 65525, 0, 65525,
                             0, 65525, 65525],
       colorsBuf := Some [255, 0, 0, 255, 255, 0, 0, 255, 255, 0, 0, 255,
                          0, 255, 0, 255, 0, 255, 0, 255, 0, 255, 0, 255],
       flagsBuf := Some [255, 0, 0, 0, 255, 0, 0, 0, 255, 0, 0, 0,
                         255, 0, 0, 0, 255, 0, 0, 0, 255, 0, 0, 0],
       pickColorsBuf := Some [0, 0, 0, 1, 0, 0, 0, 1, 0, 0, 0, 1,
                              0, 0, 0, 2, 0, 0, 0, 2, 0, 0, 0, 2],
       positionsDecodeMatrix :=
         \<lparr> translate = (0, 0, 0), scale = (1 / 65525, 1 / 65525, 1 / 65525) \<rparr>,
       numObjects := 2, numVisibleObjects := 2,
       aabb := (0, 0, 0, 1, 1, 1), portions := [(0, 3), (3, 3)],
       finalized := True, currentBatchingLayer := NoLayer \<rparr>"

text \<open>
  The layer \<open>layerA2\<close> after \<^verbatim>\<open>setFlags(0, 0)\<close>, and after \<^verbatim>\<open>setPickID(0, 7)\<close>.
\<close>

definition layerA3 :: layer where
  "layerA3 = layerA2 \<lparr> uint8Vec4Temp := [0, 0, 0, 0], flagsBuf := Some [0, 0, 0, 0] \<rparr>"

definition layerA4 :: layer where
  "layerA4 = layerA2 \<lparr> uint8Vec4Temp := [7, 9, 9, 9], pickColorsBuf := Some [7, 9, 3, 4] \<rparr>"

definition layerB1 :: layer where
  "layerB1 =
     layerB0 \<lparr>
       buffer := Some (arenaB \<lparr>
         positions := [0, 0, 0, 1, 0, 0, 0, 1, 0, 0, 0, 0, 0, 0, 0, 0, 0, 0],
         colors := [255, 0, 0, 255, 255, 0, 0, 255, 255, 0, 0, 255,
                    0, 0, 0, 0, 0, 0, 0, 0, 0, 0, 0, 0],
         flags := [255, 0, 0, 0, 255, 0, 0, 0, 255, 0, 0, 0, 0, 0, 0, 0, 0, 0, 0, 0, 0, 0, 0, 0],
         pickColors := [0, 0, 0, 1, 0, 0, 0, 1, 0, 0, 0, 1, 0, 0, 0, 0, 0, 0, 0, 0, 0, 0, 0, 0],
         lenPositions := 9, lenColors := 12, lenFlags := 12, lenPickColors := 12,
         lenIndices := 3 \<rparr>),
       numObjects := 1, numVisibleObjects := 1,
       aabb := (0, 0, 0, 1, 1, 0), portions := [(0, 3)],
       currentBatchingLayer := ThisLayer \<rparr>"

definition layerB1b :: layer where
  "layerB1b =
     layerB0 \<lparr>
       buffer := Some (arenaB \<lparr>
         positions := [0, 0, 0, 1, 0, 0, 0, 1, 0, 0, 0, 1, 1, 0, 1, 0, 1, 1],
         colors := [255, 0, 0, 255, 255, 0, 0, 255, 255, 0, 0, 255,
                    0, 255, 0, 255, 0, 255, 0, 255, 0, 255, 0, 255],
         flags := [255, 0, 0, 0, 255, 0, 0, 0, 255, 0, 0, 0,
                   255, 0, 0, 0, 255, 0, 0, 0, 255, 0, 0, 0],
         pickColors := [0, 0, 0, 1, 0, 0, 0, 1, 0, 0, 0, 1, 0, 0, 0, 2, 0, 0, 0, 2, 0, 0, 0, 2],
         lenPositions := 18, lenColors := 24, lenFlags := 24, lenPickColors := 24,
         lenIndices := 6 \<rparr>),
       numObjects := 2, numVisibleObjects := 2,
       aabb := (0, 0, 0, 1, 1, 1), portions := [(0, 3), (3, 3)],
       currentBatchingLayer := ThisLayer \<rparr>"

subsection \<open>Notions used in the statements\<close>

text \<open>The bytes of a portion in a buffer with four bytes for each vertex.\<close>

definition portionBytes :: "byte list \<Rightarrow> nat \<times> nat \<Rightarrow> byte list" where
  "portionBytes bs p = take (snd p * 4) (drop (fst p * 4) bs)"

text \<open>
  A layer is packed when its portions are contiguous from vertex 0 and, as long as it
  has its arena, end where the arena's positions end.
\<close>

definition packed :: "layer \<Rightarrow> bool" where
  "packed L =
     (contiguous 0 (portions L) \<and>
      (case buffer L of None \<Rightarrow> True
       | Some b \<Rightarrow> sum_list (map snd (portions L)) = lenPositions b div 3))"

text \<open>Vertex \<open>k\<close> of a flat array, and the component of a triple that index \<open>j\<close> falls on.\<close>

definition vertexAt :: "'a list \<Rightarrow> nat \<Rightarrow> 'a \<times> 'a \<times> 'a" where
  "vertexAt xs k = (xs ! (3 * k), xs ! (3 * k + 1), xs ! (3 * k + 2))"

definition axisOf :: "'a \<times> 'a \<times> 'a \<Rightarrow> nat \<Rightarrow> 'a" where
  "axisOf t j =
     (case t of (a, b, c) \<Rightarrow> if j mod 3 = 0 then a else if j mod 3 = 1 then b else c)"

definition boxMin :: "aabb3 \<Rightarrow> vec3" where
  "boxMin box = (case box of (x0, y0, z0, x1, y1, z1) \<Rightarrow> (x0, y0, z0))"

definition boxMax :: "aabb3 \<Rightarrow> vec3" where
  "boxMax box = (case box of (x0, y0, z0, x1, y1, z1) \<Rightarrow> (x1, y1, z1))"

definition inBox :: "vec3 \<Rightarrow> vec3 \<Rightarrow> vec3 \<Rightarrow> bool" where
  "inBox lo hi p =
     (case lo of (lx, ly, lz) \<Rightarrow> case hi of (hx, hy, hz) \<Rightarrow> case p of (x, y, z) \<Rightarrow>
        lx \<le> x \<and> x \<le> hx \<and> ly \<le> y \<and> y \<le> hy \<and> lz \<le> z \<and> z \<le> hz)"


text \<open>
  On every axis on which the box has no width: the multiplier is the positive
  infinity (\<open>degenerateInfinity\<close>), the quantized component is 0 (\<open>degenerateZero\<close>).
\<close>

definition degenerateInfinity :: "vec3 \<Rightarrow> vec3 \<Rightarrow> jsnum \<times> jsnum \<times> jsnum \<Rightarrow> bool" where
  "degenerateInfinity lo hi m =
     (case lo of (lx, ly, lz) \<Rightarrow> case hi of (hx, hy, hz) \<Rightarrow> case m of (mx, my, mz) \<Rightarrow>
        (hx = lx \<longrightarrow> mx = PosInfinity) \<and>
        (hy = ly \<longrightarrow> my = PosInfinity) \<and>
        (hz = lz \<longrightarrow> mz = PosInfinity))"

definition degenerateZero :: "vec3 \<Rightarrow> vec3 \<Rightarrow> 16 word \<times> 16 word \<times> 16 word \<Rightarrow> bool" where
  "degenerateZero lo hi q =
     (case lo of (lx, ly, lz) \<Rightarrow> case hi of (hx, hy, hz) \<Rightarrow> case q of (qx, qy, qz) \<Rightarrow>
        (hx = lx \<longrightarrow> qx = 0) \<and> (hy = ly \<longrightarrow> qy = 0) \<and> (hz = lz \<longrightarrow> qz = 0))"

subsection \<open>Example inputs of the quantizers\<close>



definition exampleQuantized :: "16 word list" where
  "exampleQuantized = [7, 7, 7, 7, 7, 7, 7, 7, 7]"

text \<open>Three vertices in the plane \<open>x = 1\<close>: their box has no width on the first axis.\<close>

definition flatArray :: "vec3 list" where
  "flatArray = [(1, 0, 0), (1, 1 / 2, 1), (1, 1, 1 / 4)]"

section \<open>Properties of the layer\<close>

subsection \<open>The example states are what the methods compute\<close>

lemma BatchingLayer_layerA0:
  "BatchingLayer (Some arenaA) None collapsedBox identityDecode NoLayer [9, 9, 9, 9] = Inr layerA0"
  by (simp add: BatchingLayer_def primitiveOf_def primitiveNameOf_def layerA0_def)

lemma layerA0_createPortion:
  "createPortion someRenderFlags layerA0 [(2, 3, 5)] None None None (Some 1) (Some red) None
     collapsedBox (1, 2, 3, 4) = Inr (layerA1, (2, 3, 5, 2, 3, 5), 0)"
  by (simp add: createPortion_def layerA0_def layerA1_def arenaA_def someRenderFlags_def
      typedArraySet_def flatten3_def flagByte_def rgbaBytes_def toUint8_def collapsedBox_def
      expandAABB3Point3_def Let_def red_def)

lemma layerA1_finalize: "finalize layerA1 = Inr layerA2"
  by (simp add: finalize_def layerA0_def layerA1_def layerA2_def arenaA_def quantizePositions_def
      quantizePositions_multiplier_def quantizeAxis_def readNum_def js_div_def maxInt_def)

lemma layerA2_setFlags: "setFlags someRenderFlags layerA2 0 0 = Inr layerA3"
  by (simp add: setFlags_def layerA0_def layerA1_def layerA2_def layerA3_def flagByte_def
      someRenderFlags_def setData_def Let_def)

subsection \<open>Counters\<close>

lemma setFlags_keeps_counters:
  assumes "setFlags RF L portionId fl = Inr L'"
  shows "numObjects L' = numObjects L" and "numVisibleObjects L' = numVisibleObjects L"
    and "numGhostedObjects L' = numGhostedObjects L"
    and "numHighlightedObjects L' = numHighlightedObjects L"
    and "numSelectedObjects L' = numSelectedObjects L"
    and "numEdgesObjects L' = numEdgesObjects L"
    and "numTransparentObjects L' = numTransparentObjects L"
  using assms
  by (auto simp add: setFlags_def Let_def split: if_splits option.splits prod.splits)

text \<open>
  Claim C1 (counters agree with the per-portion state after any sequence of
  \<^verbatim>\<open>createPortion\<close> and \<^verbatim>\<open>setFlags\<close>). \<^verbatim>\<open>createPortion\<close> counts the flags of the new
  portion, but \<^verbatim>\<open>setFlags\<close> writes the flag bytes and leaves every counter as it was.
  A layer gets one visible portion, is finalized, and the portion is then hidden with
  \<^verbatim>\<open>setFlags(0, 0)\<close>: the visible byte of the portion is 0, no portion is visible, and
  \<open>numVisibleObjects\<close> is still 1.
\<close>

theorem setFlags_leaves_counters_stale:
  "createPortion someRenderFlags layerA0 [(2, 3, 5)] None None None (Some 1) (Some red) None
     collapsedBox (1, 2, 3, 4) = Inr (layerA1, (2, 3, 5, 2, 3, 5), 0) \<and>
   finalize layerA1 = Inr layerA2 \<and>
   setFlags someRenderFlags layerA2 0 0 = Inr layerA3 \<and>
   flagsBuf layerA3 = Some [0, 0, 0, 0] \<and>
   countFlagged layerA3 0 = 0 \<and>
   numVisibleObjects layerA3 = 1"
  using layerA0_createPortion layerA1_finalize layerA2_setFlags
  by (simp add: countFlagged_def byteSet_def layerA3_def layerA2_def layerA1_def layerA0_def)

subsection \<open>Capacity\<close>

text \<open>
  Whenever the positions fit into the arena's array, \<^verbatim>\<open>createPortion\<close> on a layer
  that is not finalized appends them; \<open>maxVerts\<close> plays no part.
\<close>

lemma length_flatten3: "length (flatten3 ps) = 3 * length ps"
  by (induction ps) (auto simp add: flatten3_def)

lemma createPortion_fits:
  assumes "\<not> finalized L" "currentBatchingLayer L \<noteq> OtherLayer" "buffer L = Some b"
    and "lenPositions b + 3 * length ps \<le> length (positions b)"
  shows "\<exists>L'. createPortion RF L ps normalsLen indicesLen edgeIndicesLen fl color matrix box pickColor
           = Inr (L', foldl expandAABB3Point3 box (case matrix of None \<Rightarrow> ps | Some f \<Rightarrow> map f ps),
                  length (portions L))"
proof -
  define world where "world = (case matrix of None \<Rightarrow> ps | Some f \<Rightarrow> map f ps)"
  have "length world = length ps" by (simp add: world_def split: option.splits)
  then have "\<not> lenPositions b + length (flatten3 world) > length (positions b)"
    using assms(4) by (simp add: length_flatten3)
  then obtain positions' where "typedArraySet (positions b) (flatten3 world) (lenPositions b) = Inr positions'"
    by (simp add: typedArraySet_def)
  then show ?thesis
    using assms(1-3) by (simp add: createPortion_def Let_def world_def [symmetric])
qed

text \<open>
  Claim C2 (a \<^verbatim>\<open>createPortion\<close> that \<^verbatim>\<open>canCreatePortion\<close> has refused is rejected).
  The second guard of \<^verbatim>\<open>createPortion\<close>, whose message is
  \<^verbatim>\<open>BatchingLayer full - check first with canCreatePortion()\<close>, tests
  \<^verbatim>\<open>this._finalized\<close> again and not the capacity. On an arena for one vertex that is
  still empty, \<^verbatim>\<open>canCreatePortion(3)\<close> answers \<open>False\<close>, since \<open>0 + 3 < 1 * 3\<close> does not
  hold, and \<^verbatim>\<open>createPortion\<close> with these three position components is accepted and
  returns portion 0.
\<close>

theorem createPortion_accepts_refused_portion:
  "canCreatePortion layerA0 3 = Inr False \<and>
   createPortion someRenderFlags layerA0 [(2, 3, 5)] None None None (Some 1) (Some red) None
     collapsedBox (1, 2, 3, 4) = Inr (layerA1, (2, 3, 5, 2, 3, 5), 0)"
  using layerA0_createPortion
  by (simp add: canCreatePortion_def layerA0_def arenaA_def)

subsection \<open>The pick colours of a portion\<close>

text \<open>
  Claim C3 (\<^verbatim>\<open>setFlags\<close>, \<^verbatim>\<open>setColor\<close> and \<^verbatim>\<open>setPickID\<close> each write the new value to
  all \<open>vertexCount * 4\<close> bytes of the portion, the same four bytes for every vertex).
  \<^verbatim>\<open>setPickID\<close> does not: it takes \<open>numVerts * 2\<close> as the length and sets every
  second byte of the scratch array. For the portion \<open>(0, 1)\<close>, whose pick colour is
  \<open>(1, 2, 3, 4)\<close>, \<^verbatim>\<open>setPickID(0, 7)\<close> overwrites two of the four bytes, the second of
  them with the byte 9 that the scratch array held before, and leaves the other two.
\<close>

theorem setPickID_writes_half_the_portion:
  "portions layerA2 ! 0 = (0, 1) \<and>
   pickColorsBuf layerA2 = Some [1, 2, 3, 4] \<and>
   uint8Vec4Temp layerA2 = [9, 9, 9, 9] \<and>
   setPickID layerA2 0 7 = Inr layerA4 \<and>
   pickColorsBuf layerA4 = Some [7, 9, 3, 4]"
  by (simp add: setPickID_def layerA0_def layerA1_def layerA2_def layerA4_def toUint8_def
      setData_def Let_def)

subsection \<open>Finalizing twice\<close>

lemma finalize_finalized_raises:
  "finalized L \<Longrightarrow> finalize L = Inl (TypeError ''this.error is not a function'')"
  by (simp add: finalize_def)

text \<open>
  Claim C4 (a second \<^verbatim>\<open>finalize\<close> fails with the error "already finalized" and
  changes nothing). The guard calls \<^verbatim>\<open>this.error("Already finalized")\<close>, and the class
  has no such method: the second call raises a TypeError that does not carry the
  message. It raises before any assignment, so no state is changed.
\<close>

theorem finalize_twice_raises_TypeError:
  "finalize layerA1 = Inr layerA2 \<and>
   finalize layerA2 = Inl (TypeError ''this.error is not a function'')"
  using layerA1_finalize by (simp add: finalize_def layerA2_def)

subsection \<open>Unknown primitive names\<close>

lemma BatchingLayer_default_branch:
  "primitiveOf (primitiveNameOf cfg_primitive) = None \<Longrightarrow>
   BatchingLayer cfg_buffer cfg_primitive collapsed mat4 current temp =
     Inl (Thrown (unsupportedPrimitive (primitiveNameOf cfg_primitive)))"
  by (simp add: BatchingLayer_def)

text \<open>
  Claim C9 (an unknown primitive name is replaced by \<^verbatim>\<open>triangles\<close> with a warning, and
  construction succeeds). The constructor of \<^verbatim>\<open>BatchingLayer\<close> throws the message
  instead; the assignments of the default come after the \<^verbatim>\<open>throw\<close>. For the name
  \<^verbatim>\<open>quads\<close> no layer is constructed. \<^verbatim>\<open>Geometry.init\<close> logs the same message and goes
  on with the primitive \<open>TRIANGLES\<close>, keeping the name \<^verbatim>\<open>quads\<close>.
\<close>

theorem BatchingLayer_unknown_primitive_throws:
  "BatchingLayer (Some arenaA) (Some ''quads'') collapsedBox identityDecode NoLayer [9, 9, 9, 9] =
     Inl (Thrown (unsupportedPrimitive ''quads'')) \<and>
   Geometry_init_primitive (Some ''quads'') = (TRIANGLES, ''quads'', [unsupportedPrimitive ''quads''])"
  by (simp add: BatchingLayer_def Geometry_init_primitive_def primitiveOf_def primitiveNameOf_def)

subsection \<open>Asking for room after finalizing\<close>

lemma finalize_finalized: "finalize L = Inr L' \<Longrightarrow> finalized L'"
  by (auto simp add: finalize_def split: if_splits option.splits prod.splits)

text \<open>
  Claim C10: on a finalized layer (\<^verbatim>\<open>finalize\<close> sets the field, see
  \<open>finalize_finalized\<close>) \<^verbatim>\<open>canCreatePortion\<close> returns no boolean; it throws
  \<^verbatim>\<open>Already finalized\<close>, whatever the number of positions asked for.
\<close>

theorem canCreatePortion_finalized_throws:
  "finalized L \<Longrightarrow> canCreatePortion L lenPs = Inl (Thrown ''Already finalized'')"
  by (simp add: canCreatePortion_def)

theorem canCreatePortion_finalized_throws_witness:
  "finalized layerA2 \<and> canCreatePortion layerA2 3 = Inl (Thrown ''Already finalized'')"
proof -
  have fin: "finalized layerA2"
    using finalize_finalized [OF layerA1_finalize] .
  show ?thesis
    using fin canCreatePortion_finalized_throws [OF fin, of 3] by simp
qed

subsection \<open>The scenario with two triangles\<close>

text \<open>
  The scenario of the specification: a red and a green triangle are appended to an empty
  arena and the layer is finalized. The states \<open>layerB1\<close>, \<open>layerB1b\<close> and
  \<open>layerB2\<close> are the ones that the methods compute.
\<close>

lemma layerB0_createPortion:
  "createPortion someRenderFlags layerB0 triangle1 None (Some 3) None (Some 1) (Some red) None
     collapsedBox (0, 0, 0, 1) = Inr (layerB1, (0, 0, 0, 1, 1, 0), 0)"
  by (simp add: createPortion_def layerB0_def layerA0_def layerB1_def arenaB_def someRenderFlags_def
      typedArraySet_def flatten3_def flagByte_def rgbaBytes_def toUint8_def collapsedBox_def
      expandAABB3Point3_def Let_def triangle1_def red_def)

lemma layerB1_createPortion:
  "createPortion someRenderFlags layerB1 triangle2 None (Some 3) None (Some 1) (Some green) None
     collapsedBox (0, 0, 0, 2) = Inr (layerB1b, (0, 0, 1, 1, 1, 1), 1)"
  by (simp add: createPortion_def layerB0_def layerA0_def layerB1_def layerB1b_def arenaB_def someRenderFlags_def
      typedArraySet_def flatten3_def flagByte_def rgbaBytes_def toUint8_def collapsedBox_def
      expandAABB3Point3_def Let_def triangle2_def green_def)


lemma quantizeLoop_numeral:
  "quantizeLoop ps (xmin, ymin, zmin) (mx, my, mz) q i (numeral k) =
     quantizeLoop ps (xmin, ymin, zmin) (mx, my, mz)
       (q[i := quantizeAxis (readNum ps i) xmin mx,
          i + 1 := quantizeAxis (readNum ps (i + 1)) ymin my,
          i + 2 := quantizeAxis (readNum ps (i + 2)) zmin mz])
       (i + 3) (pred_numeral k)"
  by (simp add: numeral_eq_Suc)

lemma layerB_quantizePositions: "quantizePositions [0, 0, 0, 1, 0, 0, 0, 1, 0, 0, 0, 1, 1, 0, 1, 0, 1, 1] 18 (0, 0, 0, 1, 1, 1)
   [0, 0, 0, 0, 0, 0, 0, 0, 0, 0, 0, 0, 0, 0, 0, 0, 0, 0] =
   ([0, 0, 0, 65525, 0, 0, 0, 65525, 0, 0, 0, 65525, 65525, 0, 65525, 0, 65525, 65525],
    \<lparr> translate = (0, 0, 0), scale = (1 / 65525, 1 / 65525, 1 / 65525) \<rparr>)"
  by (simp add: quantizePositions_def quantizeLoop_numeral
      quantizePositions_multiplier_def quantizeAxis_def readNum_def js_div_def maxInt_def)


lemma layerB1b_finalize: "finalize layerB1b = Inr layerB2"
  by (simp add: finalize_def layerB1b_def layerB2_def layerB0_def layerA0_def arenaB_def layerB_quantizePositions)


subsection \<open>Portions are contiguous\<close>

text \<open>
  A layer constructed on an empty arena is packed, and \<^verbatim>\<open>createPortion\<close>,
  \<^verbatim>\<open>finalize\<close> and the setters keep it so: the portions of a layer are
  contiguous, and two different portions have no vertex in common.
\<close>

lemma contiguous_snoc:
  "contiguous s (ps @ [p]) = (contiguous s ps \<and> fst p = s + sum_list (map snd ps))"
  by (induction ps arbitrary: s) (auto simp add: add.assoc)

lemma createPortion_packed:
  assumes "packed L"
    and "createPortion RF L ps normalsLen indicesLen edgeIndicesLen fl color matrix box pickColor
           = Inr (L', box', portionId)"
  shows "packed L' \<and> portions L' = portions L @ [(sum_list (map snd (portions L)), length ps)] \<and>
         portionId = length (portions L)"
proof -
  from assms(2) obtain b where b: "buffer L = Some b"
    by (auto simp add: createPortion_def split: if_splits option.splits)
  from assms(1) b have c: "contiguous 0 (portions L)"
    and e: "sum_list (map snd (portions L)) = lenPositions b div 3"
    by (simp_all add: packed_def)
  from assms(2) b obtain b' where
    L': "portions L' = portions L @ [(lenPositions b div 3, length ps)]"
    and b': "buffer L' = Some b'" and l: "lenPositions b' = lenPositions b + 3 * length ps"
    and pid: "portionId = length (portions L)"
    by (auto simp add: createPortion_def Let_def split: if_splits sum.splits)
  have "(lenPositions b + 3 * length ps) div 3 = lenPositions b div 3 + length ps"
    by simp
  then show ?thesis
    using c e by (simp add: packed_def L' b' l pid contiguous_snoc)
qed

lemma finalize_packed:
  assumes "packed L" "finalize L = Inr L'"
  shows "packed L' \<and> portions L' = portions L"
  using assms by (auto simp add: packed_def finalize_def split: if_splits option.splits prod.splits)

lemma BatchingLayer_packed:
  assumes "BatchingLayer (Some b) cfg_primitive collapsed mat4 current temp = Inr L"
    and "lenPositions b = 0"
  shows "packed L"
  using assms by (auto simp add: BatchingLayer_def packed_def split: option.splits)

lemma setters_keep_portions:
  "setColor L portionId color = Inr L' \<Longrightarrow> portions L' = portions L"
  "setFlags RF L portionId fl = Inr L' \<Longrightarrow> portions L' = portions L"
  "setPickID L portionId pickId = Inr L' \<Longrightarrow> portions L' = portions L"
  by (auto simp add: setColor_def setFlags_def setPickID_def Let_def
      split: if_splits option.splits prod.splits)


subsection \<open>The box of a layer contains its vertices\<close>

text \<open>
  \<^verbatim>\<open>createPortion\<close> expands the box of the layer by every vertex that it appends, so
  the box that \<^verbatim>\<open>finalize\<close> quantizes with contains all positions of the arena.
\<close>

lemma expand_keeps:
  "inBox (boxMin box) (boxMax box) p \<Longrightarrow>
   inBox (boxMin (expandAABB3Point3 box q)) (boxMax (expandAABB3Point3 box q)) p"
  by (cases box; cases p; cases q)
     (simp add: inBox_def boxMin_def boxMax_def expandAABB3Point3_def
        min.coboundedI1 max.coboundedI1)

lemma expand_contains:
  "inBox (boxMin (expandAABB3Point3 box p)) (boxMax (expandAABB3Point3 box p)) p"
  by (cases box; cases p) (simp add: inBox_def boxMin_def boxMax_def expandAABB3Point3_def)

lemma foldl_expand_keeps:
  "inBox (boxMin box) (boxMax box) p \<Longrightarrow>
   inBox (boxMin (foldl expandAABB3Point3 box ps)) (boxMax (foldl expandAABB3Point3 box ps)) p"
  by (induction ps arbitrary: box) (simp_all add: expand_keeps)

lemma foldl_expand_contains:
  "p \<in> set ps \<Longrightarrow>
   inBox (boxMin (foldl expandAABB3Point3 box ps)) (boxMax (foldl expandAABB3Point3 box ps)) p"
proof (induction ps arbitrary: box)
  case Nil
  then show ?case by simp
next
  case (Cons q ps)
  show ?case
  proof (cases "p = q")
    case True
    then show ?thesis by (simp add: foldl_expand_keeps expand_contains)
  next
    case False
    with Cons.prems have "p \<in> set ps" by simp
    then show ?thesis by (simp add: Cons.IH)
  qed
qed

lemma createPortion_box:
  assumes "createPortion RF L ps normalsLen indicesLen edgeIndicesLen fl color matrix box pickColor
             = Inr (L', box', portionId)"
  shows "aabb L' = foldl expandAABB3Point3 (aabb L) (case matrix of None \<Rightarrow> ps | Some f \<Rightarrow> map f ps)"
proof -
  from assms obtain b where b: "buffer L = Some b" and nf: "\<not> finalized L"
    and cur: "currentBatchingLayer L \<noteq> OtherLayer"
    by (auto simp add: createPortion_def split: if_splits option.splits)
  obtain positions' where
    "typedArraySet (positions b) (flatten3 (case matrix of None \<Rightarrow> ps | Some f \<Rightarrow> map f ps))
       (lenPositions b) = Inr positions'"
    using assms b nf cur
    by (cases "typedArraySet (positions b)
                 (flatten3 (case matrix of None \<Rightarrow> ps | Some f \<Rightarrow> map f ps)) (lenPositions b)")
       (simp_all add: createPortion_def Let_def)
  then show ?thesis
    using assms b nf cur by (auto simp add: createPortion_def Let_def)
qed

subsection \<open>Updates stay inside their portion\<close>

lemma setData_length: "length (setData buf d off len) = length buf"
  by (simp add: setData_def)

lemma setData_take: "take off (setData buf d off len) = take off buf"
  by (simp add: setData_def)

lemma setData_drop:
  assumes "length d \<le> n"
  shows "drop (off + n) (setData buf d off len) = drop (off + n) buf"
proof (cases "off + length d \<le> length buf")
  case True
  have "drop (off + n) (take off buf @ d @ drop (off + length d) buf)
        = drop (n - length d) (drop (off + length d) buf)"
    using True assms by (simp add: min_def)
  also have "\<dots> = drop (off + n) buf"
    using assms by (simp add: add.commute)
  finally show ?thesis using True by (simp add: setData_def)
next
  case False
  then show ?thesis by (simp add: setData_def)
qed

lemma contiguous_lower: "contiguous s ps \<Longrightarrow> i < length ps \<Longrightarrow> s \<le> fst (ps ! i)"
proof (induction ps arbitrary: s i)
  case Nil
  then show ?case by simp
next
  case (Cons p ps)
  show ?case
  proof (cases i)
    case 0
    with Cons.prems show ?thesis by simp
  next
    case (Suc k)
    with Cons.prems have "s + snd p \<le> fst (ps ! k)"
      by (intro Cons.IH) simp_all
    with Suc show ?thesis by simp
  qed
qed

lemma contiguous_ordered:
  "contiguous s ps \<Longrightarrow> i < j \<Longrightarrow> j < length ps \<Longrightarrow> fst (ps ! i) + snd (ps ! i) \<le> fst (ps ! j)"
proof (induction ps arbitrary: s i j)
  case Nil
  then show ?case by simp
next
  case (Cons p ps)
  from Cons.prems obtain k where j: "j = Suc k" by (cases j) auto
  show ?case
  proof (cases i)
    case 0
    have "s + snd p \<le> fst (ps ! k)"
      using Cons.prems j by (intro contiguous_lower) simp_all
    with 0 j Cons.prems show ?thesis by simp
  next
    case (Suc i')
    have "fst (ps ! i') + snd (ps ! i') \<le> fst (ps ! k)"
      using Cons.prems j Suc by (intro Cons.IH [of "s + snd p"]) simp_all
    with Suc j show ?thesis by simp
  qed
qed

lemma contiguous_disjoint:
  assumes "contiguous s ps" "a < length ps" "b < length ps" "a \<noteq> b"
  shows "fst (ps ! b) + snd (ps ! b) \<le> fst (ps ! a) \<or> fst (ps ! a) + snd (ps ! a) \<le> fst (ps ! b)"
proof (cases "a < b")
  case True
  then show ?thesis using contiguous_ordered [OF assms(1) True assms(3)] by simp
next
  case False
  with assms(4) have "b < a" by simp
  then show ?thesis using contiguous_ordered [OF assms(1) _ assms(2)] by simp
qed

text \<open>
  What is unchanged outside a window of a buffer is unchanged in every portion that lies
  outside the window.
\<close>

lemma portionBytes_outside:
  assumes len: "length new = length old"
    and pre: "take (ba * 4) new = take (ba * 4) old"
    and post: "drop ((ba + ca) * 4) new = drop ((ba + ca) * 4) old"
    and dis: "bb + cb \<le> ba \<or> ba + ca \<le> bb"
  shows "portionBytes new (bb, cb) = portionBytes old (bb, cb)"
proof -
  from dis show ?thesis
  proof
    assume h: "bb + cb \<le> ba"
    have eq: "take (cb * 4) (drop (bb * 4) xs) = take (cb * 4) (drop (bb * 4) (take (ba * 4) xs))"
      for xs :: "byte list"
      using h by (simp add: drop_take min_def)
    have "take (cb * 4) (drop (bb * 4) new) = take (cb * 4) (drop (bb * 4) (take (ba * 4) new))"
      by (rule eq)
    also have "\<dots> = take (cb * 4) (drop (bb * 4) (take (ba * 4) old))"
      by (simp only: pre)
    also have "\<dots> = take (cb * 4) (drop (bb * 4) old)"
      by (rule eq [symmetric])
    finally show ?thesis by (simp add: portionBytes_def)
  next
    assume h: "ba + ca \<le> bb"
    have eq: "drop (bb * 4) xs = drop (bb * 4 - (ba + ca) * 4) (drop ((ba + ca) * 4) xs)"
      for xs :: "byte list"
      using h by simp
    have "drop (bb * 4) new = drop (bb * 4 - (ba + ca) * 4) (drop ((ba + ca) * 4) new)"
      by (rule eq)
    also have "\<dots> = drop (bb * 4 - (ba + ca) * 4) (drop ((ba + ca) * 4) old)"
      by (simp only: post)
    also have "\<dots> = drop (bb * 4) old"
      by (rule eq [symmetric])
    finally show ?thesis by (simp add: portionBytes_def)
  qed
qed



text \<open>
  Claim C5: on a finalized layer whose portions are contiguous, \<^verbatim>\<open>setColor\<close> and
  \<^verbatim>\<open>setFlags\<close> on portion \<open>a\<close> succeed and change no byte outside the bytes of
  \<open>a\<close>: the colours (the flags) before \<open>vertexBase * 4\<close> and from
  \<open>(vertexBase + vertexCount) * 4\<close> on are what they were, the buffer keeps its length,
  every other portion \<open>b\<close> keeps its bytes, and the buffer that the call does not
  address is untouched.
\<close>

theorem setColor_setFlags_isolated:
  assumes fin: "finalized L"
    and cont: "contiguous 0 (portions L)"
    and a: "a < length (portions L)" and b: "b < length (portions L)" and ab: "a \<noteq> b"
    and cs: "colorsBuf L = Some cs" and fs: "flagsBuf L = Some fs"
  shows "(\<exists>L' cs'. setColor L a color = Inr L' \<and> colorsBuf L' = Some cs' \<and> flagsBuf L' = Some fs \<and>
            length cs' = length cs \<and>
            take (fst (portions L ! a) * 4) cs' = take (fst (portions L ! a) * 4) cs \<and>
            drop ((fst (portions L ! a) + snd (portions L ! a)) * 4) cs' =
              drop ((fst (portions L ! a) + snd (portions L ! a)) * 4) cs \<and>
            portionBytes cs' (portions L ! b) = portionBytes cs (portions L ! b)) \<and>
         (\<exists>L' fs'. setFlags RF L a fl = Inr L' \<and> flagsBuf L' = Some fs' \<and> colorsBuf L' = Some cs \<and>
            length fs' = length fs \<and>
            take (fst (portions L ! a) * 4) fs' = take (fst (portions L ! a) * 4) fs \<and>
            drop ((fst (portions L ! a) + snd (portions L ! a)) * 4) fs' =
              drop ((fst (portions L ! a) + snd (portions L ! a)) * 4) fs \<and>
            portionBytes fs' (portions L ! b) = portionBytes fs (portions L ! b))"
proof -
  obtain ba ca where pa: "portions L ! a = (ba, ca)" by (cases "portions L ! a")
  obtain bb cb where pb: "portions L ! b = (bb, cb)" by (cases "portions L ! b")
  have dis: "bb + cb \<le> ba \<or> ba + ca \<le> bb"
    using contiguous_disjoint [OF cont a b ab] pa pb by simp
  have window: "length new = length old \<and> take (ba * 4) new = take (ba * 4) old \<and>
      drop ((ba + ca) * 4) new = drop ((ba + ca) * 4) old \<and>
      portionBytes new (bb, cb) = portionBytes old (bb, cb)"
    if new: "new = setData old (take (ca * 4) temp) (ba * 4) (ca * 4)" for new old temp :: "byte list"
  proof -
    have l: "length new = length old" using new by (simp add: setData_length)
    have t: "take (ba * 4) new = take (ba * 4) old" using new by (simp add: setData_take)
    have "drop (ba * 4 + ca * 4) new = drop (ba * 4 + ca * 4) old"
      unfolding new by (rule setData_drop) simp
    then have d: "drop ((ba + ca) * 4) new = drop ((ba + ca) * 4) old"
      by (simp add: add_mult_distrib)
    show ?thesis using l t d portionBytes_outside [OF l t d dis] by simp
  qed
  have col: "setColor L a color =
      Inr (L \<lparr> uint8Vec4Temp := fill4 (uint8Vec4Temp L) 0 ca (rgbaBytes color),
               colorsBuf := Some (setData cs (take (ca * 4) (fill4 (uint8Vec4Temp L) 0 ca (rgbaBytes color)))
                                   (ba * 4) (ca * 4)) \<rparr>)"
    using fin a cs pa by (simp add: setColor_def Let_def)
  have fl: "setFlags RF L a fl =
      Inr (L \<lparr> uint8Vec4Temp := fill4 (uint8Vec4Temp L) 0 ca
                   (flagByte fl (VISIBLE RF), flagByte fl (GHOSTED RF), flagByte fl (HIGHLIGHTED RF),
                    flagByte fl (CLIPPABLE RF)),
               flagsBuf := Some (setData fs (take (ca * 4) (fill4 (uint8Vec4Temp L) 0 ca
                   (flagByte fl (VISIBLE RF), flagByte fl (GHOSTED RF), flagByte fl (HIGHLIGHTED RF),
                    flagByte fl (CLIPPABLE RF)))) (ba * 4) (ca * 4)) \<rparr>)"
    using fin a fs pa by (simp add: setFlags_def Let_def)
  show ?thesis
    using window [OF refl] by (simp add: col fl pa pb cs fs)
qed


text \<open>
  In the scenario, painting the first triangle blue or hiding it leaves the twelve
  colour bytes and the twelve flag bytes of the second triangle as they were.
\<close>

theorem setColor_setFlags_isolated_witness:
  "finalized layerB2 \<and> contiguous 0 (portions layerB2) \<and> portions layerB2 = [(0, 3), (3, 3)] \<and>
   (\<exists>L' cs'. setColor layerB2 0 blue = Inr L' \<and> colorsBuf L' = Some cs' \<and>
      portionBytes cs' (3, 3) = [0, 255, 0, 255, 0, 255, 0, 255, 0, 255, 0, 255]) \<and>
   (\<exists>L' fs'. setFlags someRenderFlags layerB2 0 0 = Inr L' \<and> flagsBuf L' = Some fs' \<and>
      portionBytes fs' (3, 3) = [255, 0, 0, 0, 255, 0, 0, 0, 255, 0, 0, 0])"
proof -
  have fin: "finalized layerB2" by (simp add: layerB2_def)
  have ps: "portions layerB2 = [(0, 3), (3, 3)]" by (simp add: layerB2_def)
  have cont: "contiguous 0 (portions layerB2)" by (simp add: ps)
  have cs: "colorsBuf layerB2 = Some [255, 0, 0, 255, 255, 0, 0, 255, 255, 0, 0, 255,
                                       0, 255, 0, 255, 0, 255, 0, 255, 0, 255, 0, 255]"
    by (simp add: layerB2_def)
  have fs: "flagsBuf layerB2 = Some [255, 0, 0, 0, 255, 0, 0, 0, 255, 0, 0, 0,
                                      255, 0, 0, 0, 255, 0, 0, 0, 255, 0, 0, 0]"
    by (simp add: layerB2_def)
  have a: "0 < length (portions layerB2)" and b: "1 < length (portions layerB2)"
    by (simp_all add: ps)
  have ab: "(0::nat) \<noteq> 1" by simp
  show ?thesis
    using setColor_setFlags_isolated [OF fin cont a b ab cs fs, of blue someRenderFlags 0]
    by (simp add: fin ps portionBytes_def) blast
qed


subsection \<open>What the setters write\<close>

text \<open>
  \<^verbatim>\<open>setColor\<close> and \<^verbatim>\<open>setFlags\<close> give every vertex of the portion the same four
  bytes, provided the portion lies inside the buffer and the scratch array is long
  enough for it.
\<close>

lemma update4:
  assumes "i + 4 \<le> length xs"
  shows "xs[i := v0, i + 1 := v1, i + 2 := v2, i + 3 := v3] =
           take i xs @ [v0, v1, v2, v3] @ drop (i + 4) xs"
proof (rule nth_equalityI)
  show "length (xs[i := v0, i + 1 := v1, i + 2 := v2, i + 3 := v3]) =
        length (take i xs @ [v0, v1, v2, v3] @ drop (i + 4) xs)"
    using assms by simp
next
  fix j assume "j < length (xs[i := v0, i + 1 := v1, i + 2 := v2, i + 3 := v3])"
  then have j: "j < length xs" by simp
  consider "j < i" | "j = i" | "j = i + 1" | "j = i + 2" | "j = i + 3" | "i + 4 \<le> j" by linarith
  then show "xs[i := v0, i + 1 := v1, i + 2 := v2, i + 3 := v3] ! j =
        (take i xs @ [v0, v1, v2, v3] @ drop (i + 4) xs) ! j"
  proof cases
    case 1
    then show ?thesis using j assms by (simp add: nth_append)
  next
    case 2
    then show ?thesis using j assms by (simp add: nth_append)
  next
    case 3
    then show ?thesis using j assms by (simp add: nth_append)
  next
    case 4
    then show ?thesis using j assms by (simp add: nth_append)
  next
    case 5
    then show ?thesis using j assms by (simp add: nth_append)
  next
    case 6
    then obtain k where k: "j = i + 4 + k" using le_Suc_ex by blast
    then show ?thesis using j assms by (simp add: nth_append)
  qed
qed

lemma fill4_window:
  "i + 4 * n \<le> length xs \<Longrightarrow>
   fill4 xs i n (v0, v1, v2, v3) =
     take i xs @ concat (replicate n [v0, v1, v2, v3]) @ drop (i + 4 * n) xs"
proof (induction n arbitrary: xs i)
  case 0
  then show ?case by simp
next
  case (Suc n)
  define xs' where "xs' = take i xs @ [v0, v1, v2, v3] @ drop (i + 4) xs"
  have i4: "i + 4 \<le> length xs" using Suc.prems by simp
  have len: "length xs' = length xs" using i4 by (simp add: xs'_def)
  have "fill4 xs i (Suc n) (v0, v1, v2, v3) =
      fill4 (xs[i := v0, i + 1 := v1, i + 2 := v2, i + 3 := v3]) (i + 4) n (v0, v1, v2, v3)"
    by simp
  then have step: "fill4 xs i (Suc n) (v0, v1, v2, v3) = fill4 xs' (i + 4) n (v0, v1, v2, v3)"
    by (simp only: update4 [OF i4] xs'_def)
  have "fill4 xs' (i + 4) n (v0, v1, v2, v3) =
      take (i + 4) xs' @ concat (replicate n [v0, v1, v2, v3]) @ drop (i + 4 + 4 * n) xs'"
    using Suc.prems len by (intro Suc.IH) simp
  moreover have "take (i + 4) xs' = take i xs @ [v0, v1, v2, v3]"
    using i4 by (simp add: xs'_def)
  moreover have "drop (i + 4 + 4 * n) xs' = drop (i + 4 * Suc n) xs"
  proof -
    define pre where "pre = take i xs @ [v0, v1, v2, v3]"
    have lp: "length pre = i + 4" using i4 by (simp add: pre_def)
    have "xs' = pre @ drop (i + 4) xs" by (simp add: xs'_def pre_def)
    then have a: "drop (length pre + 4 * n) xs' = drop (4 * n) (drop (i + 4) xs)"
      by (simp only: drop_append) simp
    have b: "drop (4 * n) (drop (i + 4) xs) = drop (4 * n + (i + 4)) xs"
      by (rule drop_drop)
    have c: "length pre + 4 * n = i + 4 + 4 * n" by (simp add: lp)
    have d: "4 * n + (i + 4) = i + 4 * Suc n" by simp
    from a [unfolded c] b [unfolded d] show ?thesis by (rule trans)
  qed
  ultimately show ?case unfolding step by simp
qed


lemma length_quads: "length (concat (replicate n [a, b, c, d])) = n * 4"
  by (induction n) simp_all

lemma portionBytes_setData:
  assumes "off * 4 + n * 4 \<le> length buf" "length d = n * 4"
  shows "portionBytes (setData buf d (off * 4) len) (off, n) = d"
  using assms by (simp add: portionBytes_def setData_def)

lemma setColor_broadcasts:
  assumes "finalized L" "a < length (portions L)" "portions L ! a = (vertexBase, numVerts)"
    and "colorsBuf L = Some cs" "vertexBase * 4 + numVerts * 4 \<le> length cs"
    and "numVerts * 4 \<le> length (uint8Vec4Temp L)"
  shows "\<exists>L' cs'. setColor L a (r, g, b, al) = Inr L' \<and> colorsBuf L' = Some cs' \<and>
           portionBytes cs' (vertexBase, numVerts) =
             concat (replicate numVerts [toUint8 r, toUint8 g, toUint8 b, toUint8 al])"
proof -
  have t: "take (numVerts * 4) (fill4 (uint8Vec4Temp L) 0 numVerts (toUint8 r, toUint8 g, toUint8 b, toUint8 al))
        = concat (replicate numVerts [toUint8 r, toUint8 g, toUint8 b, toUint8 al])"
    using assms(6) by (simp add: fill4_window mult.commute length_quads)
  have l: "length (concat (replicate numVerts [toUint8 r, toUint8 g, toUint8 b, toUint8 al])) = numVerts * 4"
    by (rule length_quads)
  show ?thesis
    using assms(1-4) by (simp add: setColor_def Let_def rgbaBytes_def t portionBytes_setData [OF assms(5) l])
qed

lemma setFlags_broadcasts:
  assumes "finalized L" "a < length (portions L)" "portions L ! a = (vertexBase, numVerts)"
    and "flagsBuf L = Some fs" "vertexBase * 4 + numVerts * 4 \<le> length fs"
    and "numVerts * 4 \<le> length (uint8Vec4Temp L)"
  shows "\<exists>L' fs'. setFlags RF L a fl = Inr L' \<and> flagsBuf L' = Some fs' \<and>
           portionBytes fs' (vertexBase, numVerts) =
             concat (replicate numVerts [flagByte fl (VISIBLE RF), flagByte fl (GHOSTED RF),
                                         flagByte fl (HIGHLIGHTED RF), flagByte fl (CLIPPABLE RF)])"
proof -
  define v where "v = [flagByte fl (VISIBLE RF), flagByte fl (GHOSTED RF),
                       flagByte fl (HIGHLIGHTED RF), flagByte fl (CLIPPABLE RF)]"
  have t: "take (numVerts * 4) (fill4 (uint8Vec4Temp L) 0 numVerts
             (flagByte fl (VISIBLE RF), flagByte fl (GHOSTED RF),
              flagByte fl (HIGHLIGHTED RF), flagByte fl (CLIPPABLE RF)))
        = concat (replicate numVerts v)"
    using assms(6) by (simp add: fill4_window mult.commute v_def length_quads)
  have l: "length (concat (replicate numVerts v)) = numVerts * 4"
    by (simp add: v_def length_quads)
  show ?thesis
    using assms(1-4)
    by (simp add: setFlags_def Let_def t portionBytes_setData [OF assms(5) l] v_def [symmetric])
qed


section \<open>Properties of the codec\<close>

subsection \<open>One axis\<close>




lemma quantizeAxis_degenerate:
  assumes "0 < c"
  shows "js_div c 0 = PosInfinity" and "quantizeAxis p lo (js_div c 0) = 0"
proof -
  show i: "js_div c 0 = PosInfinity" using assms by (simp add: js_div_def)
  show "quantizeAxis p lo (js_div c 0) = 0"
    unfolding i quantizeAxis_def by (cases p) simp_all
qed

lemma quantizeLoop_length: "length (quantizeLoop ps lo m q i n) = length q"
proof -
  obtain xmin ymin zmin where lo: "lo = (xmin, ymin, zmin)" by (cases lo)
  obtain mx my mz where m: "m = (mx, my, mz)" by (cases m)
  have "length (quantizeLoop ps (xmin, ymin, zmin) (mx, my, mz) q i n) = length q"
    by (induction n arbitrary: q i) simp_all
  then show ?thesis by (simp add: lo m)
qed

lemma axisOf_shift: "i + 3 \<le> j \<Longrightarrow> axisOf t (j - (i + 3)) = axisOf t (j - i)"
proof -
  assume "i + 3 \<le> j"
  then obtain k where j: "j = i + 3 + k" using le_Suc_ex by blast
  have a: "j - i = 3 + k" and b: "j - (i + 3) = k" by (simp_all add: j)
  have e: "(j - i) mod 3 = (j - (i + 3)) mod 3"
    by (simp only: a b mod_add_self1)
  show ?thesis by (simp only: axisOf_def e)
qed

lemma axisOf_0: "axisOf (a, b, c) 0 = a"
  and axisOf_1: "axisOf (a, b, c) (Suc 0) = b"
  and axisOf_2: "axisOf (a, b, c) 2 = c"
  by (simp_all add: axisOf_def)

lemma quantizeLoop_nth:
  "j < length q \<Longrightarrow>
   quantizeLoop ps lo m q i n ! j =
     (if i \<le> j \<and> j < i + 3 * n
      then quantizeAxis (readNum ps j) (axisOf lo (j - i)) (axisOf m (j - i))
      else q ! j)"
proof (induction n arbitrary: q i)
  case 0
  then show ?case by auto
next
  case (Suc n)
  obtain xmin ymin zmin where lo: "lo = (xmin, ymin, zmin)" by (cases lo)
  obtain mx my mz where m: "m = (mx, my, mz)" by (cases m)
  define q' where "q' = q[i := quantizeAxis (readNum ps i) xmin mx,
             i + 1 := quantizeAxis (readNum ps (i + 1)) ymin my,
             i + 2 := quantizeAxis (readNum ps (i + 2)) zmin mz]"
  have len: "j < length q'" using Suc.prems by (simp add: q'_def)
  have step: "quantizeLoop ps lo m q i (Suc n) = quantizeLoop ps lo m q' (i + 3) n"
    by (simp add: lo m q'_def)
  have IH: "quantizeLoop ps lo m q' (i + 3) n ! j =
     (if i + 3 \<le> j \<and> j < i + 3 + 3 * n
      then quantizeAxis (readNum ps j) (axisOf lo (j - (i + 3))) (axisOf m (j - (i + 3)))
      else q' ! j)"
    by (rule Suc.IH [OF len])
  consider (before) "j < i" | (x) "j = i" | (y) "j = i + 1" | (z) "j = i + 2" | (after) "i + 3 \<le> j"
    by linarith
  then show ?case
  proof cases
    case before
    then have "q' ! j = q ! j" by (simp add: q'_def)
    with before show ?thesis unfolding step IH by simp
  next
    case x
    then have "q' ! j = quantizeAxis (readNum ps i) xmin mx"
      using Suc.prems by (simp add: q'_def)
    with x show ?thesis unfolding step IH unfolding lo m by (simp add: axisOf_0)
  next
    case y
    then have "q' ! j = quantizeAxis (readNum ps (i + 1)) ymin my"
      using Suc.prems by (simp add: q'_def)
    with y show ?thesis unfolding step IH unfolding lo m by (simp add: axisOf_1)
  next
    case z
    then have "q' ! j = quantizeAxis (readNum ps (i + 2)) zmin mz"
      using Suc.prems by (simp add: q'_def)
    with z show ?thesis unfolding step IH unfolding lo m by (simp add: axisOf_2)
  next
    case after
    then have "q' ! j = q ! j" by (simp add: q'_def)
    with after show ?thesis unfolding step IH by (simp add: axisOf_shift)
  qed
qed

subsection \<open>Quantization of positions\<close>


lemma quantizeVec3_nth:
  assumes "i < length array" "array ! i = (x, y, z)"
  shows "fst (quantizeVec3 array (lx, ly, lz) (hx, hy, hz)) ! i =
           (quantizeAxis (Num x) lx (js_div 65535 (hx - lx)),
            quantizeAxis (Num y) ly (js_div 65535 (hy - ly)),
            quantizeAxis (Num z) lz (js_div 65535 (hz - lz)))"
  using assms by (simp add: quantizeVec3_def quantizeVec3_multiplier_def)


lemma quantizePositions_vertex:
  assumes "3 * k + 2 < lenPs" "lenPs \<le> length q0"
  shows "vertexAt (fst (quantizePositions ps lenPs (xmin, ymin, zmin, xmax, ymax, zmax) q0)) k =
           (quantizeAxis (readNum ps (3 * k)) xmin (js_div maxInt (xmax - xmin)),
            quantizeAxis (readNum ps (3 * k + 1)) ymin (js_div maxInt (ymax - ymin)),
            quantizeAxis (readNum ps (3 * k + 2)) zmin (js_div maxInt (zmax - zmin)))"
proof -
  have rounds: "3 * k + 2 < 3 * ((lenPs + 2) div 3)" using assms(1) by linarith
  have a0: "axisOf t (3 * k) = fst t" for t :: "'a \<times> 'a \<times> 'a"
    by (cases t) (simp add: axisOf_def)
  have a1: "axisOf t (3 * k + 1) = fst (snd t)" for t :: "'a \<times> 'a \<times> 'a"
    by (cases t) (simp add: axisOf_def mod_Suc)
  have a2: "axisOf t (3 * k + 2) = snd (snd t)" for t :: "'a \<times> 'a \<times> 'a"
  proof -
    have "(3 * k + 2) mod 3 = 2" by presburger
    then show ?thesis by (cases t) (simp add: axisOf_def)
  qed
  define loop where "loop = quantizeLoop ps (xmin, ymin, zmin)
      (js_div maxInt (xmax - xmin), js_div maxInt (ymax - ymin), js_div maxInt (zmax - zmin))
      q0 0 ((lenPs + 2) div 3)"
  have n: "loop ! j =
     quantizeAxis (readNum ps j) (axisOf (xmin, ymin, zmin) j)
        (axisOf (js_div maxInt (xmax - xmin), js_div maxInt (ymax - ymin),
                 js_div maxInt (zmax - zmin)) j)"
    if "j < 3 * k + 3" for j
    unfolding loop_def using that assms rounds by (subst quantizeLoop_nth) simp_all
  have j0: "3 * k < 3 * k + 3" and j1: "3 * k + 1 < 3 * k + 3" and j2: "3 * k + 2 < 3 * k + 3"
    by simp_all
  have n0: "loop ! (3 * k) = quantizeAxis (readNum ps (3 * k)) xmin (js_div maxInt (xmax - xmin))"
    by (simp only: n [OF j0] a0 fst_conv)
  have n1: "loop ! (3 * k + 1) =
      quantizeAxis (readNum ps (3 * k + 1)) ymin (js_div maxInt (ymax - ymin))"
    by (simp only: n [OF j1] a1 fst_conv snd_conv)
  have n2: "loop ! (3 * k + 2) =
      quantizeAxis (readNum ps (3 * k + 2)) zmin (js_div maxInt (zmax - zmin))"
    by (simp only: n [OF j2] a2 fst_conv snd_conv)
  have "fst (quantizePositions ps lenPs (xmin, ymin, zmin, xmax, ymax, zmax) q0) = loop"
    by (simp add: quantizePositions_def quantizePositions_multiplier_def loop_def)
  then show ?thesis
    by (simp only: vertexAt_def n0 n1 n2)
qed






text \<open>
  Claim C7, as the code has it: on an axis on which the box has no width both
  quantizers divide by zero without a guard. The multiplier is the positive infinity,
  the product is NaN or an infinity, and the store into the \<^verbatim>\<open>Uint16Array\<close> turns it
  into 0: every quantized component on that axis is the integer 0.
\<close>

theorem quantize_degenerate_axis:
  "degenerateInfinity lo hi (quantizeVec3_multiplier lo hi) \<and>
   (i < length array \<longrightarrow> degenerateZero lo hi (fst (quantizeVec3 array lo hi) ! i)) \<and>
   degenerateInfinity (boxMin box) (boxMax box) (quantizePositions_multiplier box) \<and>
   (3 * k + 2 < lenPs \<and> lenPs \<le> length q0 \<longrightarrow>
      degenerateZero (boxMin box) (boxMax box) (vertexAt (fst (quantizePositions ps lenPs box q0)) k))"
proof -
  obtain lx ly lz where lo: "lo = (lx, ly, lz)" by (cases lo)
  obtain hx hy hz where hi: "hi = (hx, hy, hz)" by (cases hi)
  obtain xmin ymin zmin xmax ymax zmax where b: "box = (xmin, ymin, zmin, xmax, ymax, zmax)"
    by (cases box)
  have inf: "js_div 65535 0 = PosInfinity" "js_div maxInt 0 = PosInfinity"
    by (simp_all add: js_div_def maxInt_def)
  have zero: "quantizeAxis p v (js_div 65535 0) = 0" "quantizeAxis p v (js_div maxInt 0) = 0"
    for p and v :: real
    by (rule quantizeAxis_degenerate(2), simp)
       (rule quantizeAxis_degenerate(2), simp add: maxInt_def)
  have 1: "degenerateInfinity lo hi (quantizeVec3_multiplier lo hi)"
    by (simp add: lo hi degenerateInfinity_def quantizeVec3_multiplier_def inf)
  have 2: "degenerateZero lo hi (fst (quantizeVec3 array lo hi) ! i)" if "i < length array"
  proof -
    obtain x y z where p: "array ! i = (x, y, z)" by (cases "array ! i")
    show ?thesis
      unfolding lo hi quantizeVec3_nth [OF that p] by (simp add: degenerateZero_def zero)
  qed
  have 3: "degenerateInfinity (boxMin box) (boxMax box) (quantizePositions_multiplier box)"
    by (simp add: b boxMin_def boxMax_def degenerateInfinity_def quantizePositions_multiplier_def inf)
  have 4: "degenerateZero (boxMin box) (boxMax box) (vertexAt (fst (quantizePositions ps lenPs box q0)) k)"
    if "3 * k + 2 < lenPs \<and> lenPs \<le> length q0"
  proof -
    have k: "3 * k + 2 < lenPs" and q0: "lenPs \<le> length q0" using that by simp_all
    show ?thesis
      unfolding b quantizePositions_vertex [OF k q0]
      by (simp add: boxMin_def boxMax_def degenerateZero_def zero)
  qed
  show ?thesis using 1 2 3 4 by blast
qed

text \<open>
  The theorem for three vertices in the plane \<open>x = 1\<close>, and for the single vertex of
  the layer \<open>layerA1\<close>, whose box has no width on any axis.
\<close>

theorem quantize_degenerate_axis_witness:
  "degenerateInfinity (1, 0, 0) (1, 1, 1) (quantizeVec3_multiplier (1, 0, 0) (1, 1, 1)) \<and>
   1 < length flatArray \<and>
   degenerateZero (1, 0, 0) (1, 1, 1) (fst (quantizeVec3 flatArray (1, 0, 0) (1, 1, 1)) ! 1) \<and>
   degenerateInfinity (boxMin (2, 3, 5, 2, 3, 5)) (boxMax (2, 3, 5, 2, 3, 5))
     (quantizePositions_multiplier (2, 3, 5, 2, 3, 5)) \<and>
   (3 * 0 + 2 < (3 :: nat) \<and> 3 \<le> length exampleQuantized) \<and>
   degenerateZero (boxMin (2, 3, 5, 2, 3, 5)) (boxMax (2, 3, 5, 2, 3, 5))
     (vertexAt (fst (quantizePositions [2, 3, 5] 3 (2, 3, 5, 2, 3, 5) exampleQuantized)) 0)"
proof -
  have h1: "1 < length flatArray" by (simp add: flatArray_def)
  have h2: "3 * 0 + 2 < (3 :: nat) \<and> 3 \<le> length exampleQuantized"
    by (simp add: exampleQuantized_def)
  from quantize_degenerate_axis [of "(1, 0, 0)" "(1, 1, 1)" 1 flatArray "(2, 3, 5, 2, 3, 5)"
      0 3 exampleQuantized "[2, 3, 5]"] h1 h2
  show ?thesis by blast
qed

text \<open>
  The multiplier of a degenerate axis is not 0 and the axis is not skipped: the
  multiplier is the positive infinity, and the component 7 that the output array held
  for that axis is overwritten.
\<close>

theorem quantize_divides_by_zero_counterexample:
  "fst (quantizeVec3_multiplier (1, 0, 0) (1, 1, 1)) = PosInfinity \<and>
   fst (quantizeVec3_multiplier (1, 0, 0) (1, 1, 1)) \<noteq> Num 0 \<and>
   fst (quantizePositions_multiplier (1, 0, 0, 1, 1, 1)) = PosInfinity \<and>
   fst (quantizePositions_multiplier (1, 0, 0, 1, 1, 1)) \<noteq> Num 0 \<and>
   fst (quantizePositions [1, 0, 0] 3 (1, 0, 0, 1, 1, 1) [7, 7, 7]) ! 0 \<noteq> [7, 7, 7] ! 0"
  by (simp add: quantizeVec3_multiplier_def quantizePositions_def quantizePositions_multiplier_def
      quantizeAxis_def readNum_def js_div_def maxInt_def)


subsection \<open>Oct-encoding\<close>

lemma octEncodeNormal_candidates:
  "octEncodeNormal n = octEncodeVec3 n Floor Floor \<or> octEncodeNormal n = octEncodeVec3 n Ceil Floor \<or>
   octEncodeNormal n = octEncodeVec3 n Floor Ceil \<or> octEncodeNormal n = octEncodeVec3 n Ceil Ceil"
  by (simp add: octEncodeNormal_def better_def Let_def)

lemma octEncodeNormal_best:
  "dot n (octDecodeVec2 (octEncodeVec3 n xfunc yfunc)) \<le> dot n (octDecodeVec2 (octEncodeNormal n))"
  by (cases xfunc; cases yfunc) (simp_all add: octEncodeNormal_def better_def Let_def)

lemma down_candidates:
  "octEncodeVec3 (0, 0, -1) Floor Floor = (127, 127)"
  "octEncodeVec3 (0, 0, -1) Ceil Floor = (-128, 127)"
  "octEncodeVec3 (0, 0, -1) Floor Ceil = (127, -128)"
  "octEncodeVec3 (0, 0, -1) Ceil Ceil = (-128, -128)"
  by (simp_all add: octEncodeVec3_def mathRound_def toInt8_def signOf_def Let_def)

lemma quotient_below:
  fixes a b c :: real
  assumes "0 < c" "0 \<le> b" "(a / c)\<^sup>2 < b"
  shows "a / sqrt b < c"
proof -
  have "a / c < sqrt b" using assms(3) by (rule real_less_rsqrt)
  moreover have "0 < b" using assms(3) zero_le_power2 [of "a / c"] by linarith
  then have "0 < sqrt b" by simp
  ultimately show ?thesis using assms(1) by (simp add: field_simps)
qed

lemma down_decoded:
  "dot (0, 0, -1) (octDecodeVec2 (127, 127)) = (126 / 128) / sqrt ((1 / 128)\<^sup>2 + (127 / 128)\<^sup>2 + (126 / 128)\<^sup>2)"
  by (simp add: dot_def octDecodeVec2_def signOf_def Let_def power2_eq_square)


lemma down_decoded2:
  "dot (0, 0, -1) (octDecodeVec2 (-128, 127)) =
     (16257 / 16256) / sqrt ((1 / 128)\<^sup>2 + (127 / 128)\<^sup>2 + (16257 / 16256)\<^sup>2)"
  "dot (0, 0, -1) (octDecodeVec2 (127, -128)) =
     (16257 / 16256) / sqrt ((1 / 127)\<^sup>2 + (126 / 127)\<^sup>2 + (16257 / 16256)\<^sup>2)"
  "dot (0, 0, -1) (octDecodeVec2 (-128, -128)) =
     (129 / 127) / sqrt ((1 / 127)\<^sup>2 + (126 / 127)\<^sup>2 + (129 / 127)\<^sup>2)"
  by (simp_all add: dot_def octDecodeVec2_def signOf_def Let_def power2_eq_square)

lemma down_cosines:
  "dot (0, 0, -1) (octDecodeVec2 (127, 127)) < 72 / 100"
  "dot (0, 0, -1) (octDecodeVec2 (-128, 127)) < 72 / 100"
  "dot (0, 0, -1) (octDecodeVec2 (127, -128)) < 72 / 100"
  "dot (0, 0, -1) (octDecodeVec2 (-128, -128)) < 72 / 100"
  unfolding down_decoded down_decoded2
  by (rule quotient_below; simp add: power2_eq_square)+

text \<open>
  Claim C8 (the encoder tries the four combinations of \<^verbatim>\<open>floor\<close> and \<^verbatim>\<open>ceil\<close>,
  keeps the candidate with the largest cosine, and for unit normals the decoded vector
  has a cosine above 0.98 with the original). The selection is as claimed
  (\<open>octEncodeNormal_candidates\<close>, \<open>octEncodeNormal_best\<close>). The threshold fails: in
  \<^verbatim>\<open>octDecodeVec2\<close> the fold of the lower hemisphere overwrites \<open>x\<close> before it
  computes \<open>y\<close> from it, so normals that point down are decoded wrongly. For the unit
  normal \<open>(0, 0, -1)\<close> each of the four candidates, and so the one that is stored,
  decodes to a vector whose cosine with the normal is below 0.72.
\<close>

theorem octEncode_down_normal_below_threshold:
  "dot (0, 0, -1) (0, 0, -1) = 1 \<and>
   octEncode [(0, 0, -1)] = [(fst (octEncodeNormal (0, 0, -1)), snd (octEncodeNormal (0, 0, -1)), 0)] \<and>
   dot (0, 0, -1) (octDecodeVec2 (octEncodeNormal (0, 0, -1))) < 72 / 100"
proof -
  have "dot (0, 0, -1) (octDecodeVec2 (octEncodeNormal (0, 0, -1))) < 72 / 100"
    using octEncodeNormal_candidates [of "(0, 0, -1)"] down_cosines
    by (auto simp add: down_candidates)
  then show ?thesis
    by (simp add: dot_def octEncode_def split: prod.splits)
qed

end
